theory Spec2Isabelle
  imports Main "HOL-Library.Word"
begin

unbundle bit_operations_syntax

section \<open>JavaScript values and strings\<close>

text \<open>
  The two scripts of the repository are \<^verbatim>\<open>voice-cli.js\<close> version 1.0.1 (with voice
  responses) and the earlier version 1.0.0 (text only). A definition without suffix embeds
  the function of that name of version 1.0.1; the suffix \<open>_basic\<close> marks the function
  of the same name of version 1.0.0 where the two differ.

  A JavaScript string is modelled as a \<^typ>\<open>string\<close> whose characters are the code units
  U+0000 to U+00FF; strings holding code units beyond U+00FF are outside the model.
  Values read from the configuration file are the primitive JSON values. A number is
  given by what the program can see of it: whether it is truthy (neither 0 nor NaN) and
  the text \<^verbatim>\<open>String\<close> gives for it.
\<close>

datatype jsval = JUndefined | JNull | JBool bool | JNum bool string | JStr string

fun truthy :: "jsval \<Rightarrow> bool" where
  "truthy JUndefined = False"
| "truthy JNull = False"
| "truthy (JBool b) = b"
| "truthy (JNum nonzero s) = nonzero"
| "truthy (JStr s) = (s \<noteq> [])"

text \<open>The decimal digits of a number, as a template literal writes an HTTP status code.\<close>

function decimal :: "nat \<Rightarrow> string" where
  "decimal n = (if n < 10 then [char_of (48 + n)]
                else decimal (n div 10) @ [char_of (48 + n mod 10)])"
  by pat_completeness auto
termination
  by (relation "measure id") auto

declare decimal.simps [simp del]

text \<open>The text a template literal \<^verbatim>\<open>${v}\<close> inserts for a value.\<close>

fun template :: "jsval \<Rightarrow> string" where
  "template JUndefined = ''undefined''"
| "template JNull = ''null''"
| "template (JBool b) = (if b then ''true'' else ''false'')"
| "template (JNum nonzero s) = s"
| "template (JStr s) = s"

text \<open>
  \<^verbatim>\<open>String.prototype.toLowerCase\<close> on the code units U+0000 to U+00FF: the letters
  A to Z and the Latin-1 capitals U+00C0 to U+00DE (the multiplication sign U+00D7 apart)
  move up by 32, every other code unit stays.
\<close>

definition toLowerCase_char :: "char \<Rightarrow> char" where
  "toLowerCase_char c =
     (let n = (of_char c :: nat)
      in if (65 \<le> n \<and> n \<le> 90) \<or> (192 \<le> n \<and> n \<le> 222 \<and> n \<noteq> 215)
         then char_of (n + 32) else c)"

definition toLowerCase :: "string \<Rightarrow> string" where
  "toLowerCase s = map toLowerCase_char s"

text \<open>
  \<^verbatim>\<open>String.prototype.trim\<close> removes white space and line terminators from both
  ends; below U+0100 these are TAB, LF, VT, FF, CR, SPACE and the no-break space U+00A0.
\<close>

definition isWhiteSpace :: "char \<Rightarrow> bool" where
  "isWhiteSpace c = ((of_char c :: nat) \<in> {9, 10, 11, 12, 13, 32, 160})"

definition trim :: "string \<Rightarrow> string" where
  "trim s = rev (dropWhile isWhiteSpace (rev (dropWhile isWhiteSpace s)))"

text \<open>\<^verbatim>\<open>args.join(' ')\<close>\<close>

fun join_space :: "string list \<Rightarrow> string" where
  "join_space [] = []"
| "join_space [a] = a"
| "join_space (a # b # bs) = a @ '' '' @ join_space (b # bs)"

section \<open>The MD5 digest of the cache key\<close>

text \<open>
  \<^verbatim>\<open>require('crypto').createHash('md5').update(text).digest('hex')\<close> is the MD5
  digest (RFC 1321) of the UTF-8 encoding of the text, written as 32 lower-case
  hexadecimal digits.
\<close>

type_synonym byte = "8 word"
type_synonym u32 = "32 word"

definition utf8_char :: "char \<Rightarrow> byte list" where
  "utf8_char c =
     (let n = (of_char c :: nat)
      in if n < 128 then [of_nat n]
         else [of_nat (192 + n div 64), of_nat (128 + n mod 64)])"

definition utf8 :: "string \<Rightarrow> byte list" where
  "utf8 s = concat (map utf8_char s)"

definition md5_s :: "nat list" where
  "md5_s = [7, 12, 17, 22, 7, 12, 17, 22, 7, 12, 17, 22, 7, 12, 17, 22,
            5,  9, 14, 20, 5,  9, 14, 20, 5,  9, 14, 20, 5,  9, 14, 20,
            4, 11, 16, 23, 4, 11, 16, 23, 4, 11, 16, 23, 4, 11, 16, 23,
            6, 10, 15, 21, 6, 10, 15, 21, 6, 10, 15, 21, 6, 10, 15, 21]"

definition md5_K :: "u32 list" where
  "md5_K = [
    0xd76aa478, 0xe8c7b756, 0x242070db, 0xc1bdceee, 0xf57c0faf, 0x4787c62a, 0xa8304613, 0xfd469501,
    0x698098d8, 0x8b44f7af, 0xffff5bb1, 0x895cd7be, 0x6b901122, 0xfd987193, 0xa679438e, 0x49b40821,
    0xf61e2562, 0xc040b340, 0x265e5a51, 0xe9b6c7aa, 0xd62f105d, 0x02441453, 0xd8a1e681, 0xe7d3fbc8,
    0x21e1cde6, 0xc33707d6, 0xf4d50d87, 0x455a14ed, 0xa9e3e905, 0xfcefa3f8, 0x676f02d9, 0x8d2a4c8a,
    0xfffa3942, 0x8771f681, 0x6d9d6122, 0xfde5380c, 0xa4beea44, 0x4bdecfa9, 0xf6bb4b60, 0xbebfbc70,
    0x289b7ec6, 0xeaa127fa, 0xd4ef3085, 0x04881d05, 0xd9d4d039, 0xe6db99e5, 0x1fa27cf8, 0xc4ac5665,
    0xf4292244, 0x432aff97, 0xab9423a7, 0xfc93a039, 0x655b59c3, 0x8f0ccc92, 0xffeff47d, 0x85845dd1,
    0x6fa87e4f, 0xfe2ce6e0, 0xa3014314, 0x4e0811a1, 0xf7537e82, 0xbd3af235, 0x2ad7d2bb, 0xeb86d391]"

definition rotl32 :: "u32 \<Rightarrow> nat \<Rightarrow> u32" where
  "rotl32 x n = push_bit n x OR drop_bit (32 - n) x"

text \<open>Four bytes, least significant first, as one word; and the \<open>k\<close> low bytes of a word in that order.\<close>

definition le_word :: "byte list \<Rightarrow> u32" where
  "le_word bs = foldr (\<lambda>b acc. ucast b OR push_bit 8 acc) bs 0"

definition le_bytes :: "nat \<Rightarrow> 'a::len word \<Rightarrow> byte list" where
  "le_bytes k w = map (\<lambda>i. ucast (drop_bit (8 * i) w)) [0..<k]"

definition md5_pad :: "byte list \<Rightarrow> byte list" where
  "md5_pad m = m @ [0x80] @ replicate ((119 - length m mod 64) mod 64) 0
                 @ le_bytes 8 (of_nat (8 * length m) :: 64 word)"

fun chunks :: "nat \<Rightarrow> byte list \<Rightarrow> byte list list" where
  "chunks 0 xs = []"
| "chunks (Suc k) xs = take 64 xs # chunks k (drop 64 xs)"

definition md5_words :: "byte list \<Rightarrow> u32 list" where
  "md5_words blk = map (\<lambda>i. le_word (take 4 (drop (4 * i) blk))) [0..<16]"

type_synonym md5_state = "u32 \<times> u32 \<times> u32 \<times> u32"

definition md5_step :: "u32 list \<Rightarrow> md5_state \<Rightarrow> nat \<Rightarrow> md5_state" where
  "md5_step M st i = (case st of (A, B, C, D) \<Rightarrow>
     let (F, g) =
       (if i < 16 then ((B AND C) OR (NOT B AND D), i)
        else if i < 32 then ((D AND B) OR (NOT D AND C), (5 * i + 1) mod 16)
        else if i < 48 then (B XOR C XOR D, (3 * i + 5) mod 16)
        else (C XOR (B OR NOT D), (7 * i) mod 16));
       F' = F + A + md5_K ! i + M ! g
     in (D, B + rotl32 F' (md5_s ! i), B, C))"

definition md5_block :: "md5_state \<Rightarrow> byte list \<Rightarrow> md5_state" where
  "md5_block st blk = (case st of (a0, b0, c0, d0) \<Rightarrow>
     case fold (\<lambda>i s. md5_step (md5_words blk) s i) [0..<64] st of (A, B, C, D) \<Rightarrow>
       (a0 + A, b0 + B, c0 + C, d0 + D))"

definition md5_init :: md5_state where
  "md5_init = (0x67452301, 0xefcdab89, 0x98badcfe, 0x10325476)"

definition md5 :: "byte list \<Rightarrow> byte list" where
  "md5 m = (let p = md5_pad m in
     case fold (\<lambda>blk st. md5_block st blk) (chunks (length p div 64) p) md5_init of
       (a, b, c, d) \<Rightarrow> concat (map (le_bytes 4) [a, b, c, d]))"

definition hex_digit :: "nat \<Rightarrow> char" where
  "hex_digit n = ''0123456789abcdef'' ! (n mod 16)"

definition hex_byte :: "byte \<Rightarrow> string" where
  "hex_byte b = [hex_digit (unat b div 16), hex_digit (unat b mod 16)]"

definition hex :: "byte list \<Rightarrow> string" where
  "hex bs = concat (map hex_byte bs)"

definition md5_hex :: "string \<Rightarrow> string" where
  "md5_hex s = hex (md5 (utf8 s))"

text \<open>
  The cache key of \<^verbatim>\<open>speakResponse\<close>:
  \<^verbatim>\<open>createHash('md5').update(text).digest('hex').substring(0, 10)\<close>.
\<close>

definition cacheKey :: "string \<Rightarrow> string" where
  "cacheKey text = take 10 (md5_hex text)"

section \<open>Output, environment and state\<close>

text \<open>
  The pictographs of the messages lie outside U+0000 to U+00FF, so a line of output is a
  list of segments: literal text and pictographs.
\<close>

datatype emoji =
    Muted | Speech | Info | Speaking | Headphone | Microphone | Cross | Check | Clock
  | Laptop | Clipboard | Party | Question | Bulb | StudioMic | Wave | Warning | Wrench

datatype seg = T string | E emoji

record request =
  req_hostname :: string
  req_port :: nat
  req_path :: string
  req_method :: string
  req_api_key :: string
  req_text :: string
  req_model_id :: string

datatype response = NetError string | Response nat string

text \<open>
  What the program does to the outside, in order: a line on the console
  (\<^verbatim>\<open>console.log\<close>), text without line end (\<^verbatim>\<open>process.stdout.write\<close>, the
  prompt of \<^verbatim>\<open>readline\<close>), a shell command (\<^verbatim>\<open>child_process.exec\<close>) and an
  HTTPS request.
\<close>

datatype event = Log "seg list" | Write "seg list" | Exec string | Request request

record config =
  cfg_version :: jsval
  cfg_platform :: jsval
  setupDate :: jsval
  voiceEnabled :: jsval
  elevenLabsApiKey :: jsval
  voiceId :: jsval
  preferences :: "(bool \<times> bool) option"

text \<open>
  The environment gives what the program reads from its platform and what the outside
  answers: \<open>exec_error\<close> is the message of the error \<^verbatim>\<open>exec\<close> passes to its
  callback for a command (\<open>None\<close> when the command exits with status 0), \<open>api\<close>
  the answer of the remote service, \<open>load_time\<close> the time at which the script was
  loaded. \<open>json_parse\<close>, \<open>json_stringify\<close>, the three date formats and \<open>update_error\<close> (the message of the \<^verbatim>\<open>TypeError\<close> of
  \<^verbatim>\<open>hash.update\<close> for a value that is not a string) stand for the functions of the
  Node.js library. A configuration file that parses to something other than an object is
  outside the model.
\<close>

record env =
  platform :: string
  arch :: string
  node_version :: string
  homedir :: string
  exec_error :: "string \<Rightarrow> string option"
  api :: "request \<Rightarrow> response"
  load_time :: nat
  toLocaleTimeString :: "nat \<Rightarrow> string"
  toLocaleString :: "nat \<Rightarrow> string"
  toISOString :: "nat \<Rightarrow> string"
  json_parse :: "string \<Rightarrow> string + config"
  json_stringify :: "config \<Rightarrow> string"
  update_error :: "jsval \<Rightarrow> string"

text \<open>
  The state: the directories and the files (with their content) of the file system, the
  clock, and the events so far, oldest first. The home directory is taken to be a
  directory, so that \<^verbatim>\<open>mkdirSync\<close> with \<^verbatim>\<open>recursive: true\<close> succeeds. Faults of
  the file system that the state does not decide (permissions, a full disk) are outside
  the model.
\<close>

record world =
  dirs :: "string set"
  files :: "string \<rightharpoonup> string"
  clock :: nat
  trace :: "event list"

definition emit :: "event \<Rightarrow> world \<Rightarrow> world" where
  "emit e w = w\<lparr>trace := trace w @ [e]\<rparr>"

definition console_log :: "seg list \<Rightarrow> world \<Rightarrow> world" where
  "console_log l w = emit (Log l) w"

definition existsSync :: "world \<Rightarrow> string \<Rightarrow> bool" where
  "existsSync w p = (p \<in> dirs w \<or> files w p \<noteq> None)"

definition mkdirSync :: "string \<Rightarrow> world \<Rightarrow> world" where
  "mkdirSync p w = w\<lparr>dirs := insert p (dirs w)\<rparr>"

definition readFileSync :: "world \<Rightarrow> string \<Rightarrow> string + string" where
  "readFileSync w p =
     (case files w p of
        Some d \<Rightarrow> Inr d
      | None \<Rightarrow> if p \<in> dirs w then Inl ''EISDIR: illegal operation on a directory, read''
               else Inl (''ENOENT: no such file or directory, open '' @ [CHR 0x27] @ p @ [CHR 0x27]))"

section \<open>Configuration and platform\<close>

definition VERSION :: string where
  "VERSION = ''1.0.1''"

definition VERSION_basic :: string where
  "VERSION_basic = ''1.0.0''"

definition DEFAULT_VOICE_ID :: string where
  "DEFAULT_VOICE_ID = ''21m00Tcm4TlvDq8ikWAM''"

definition isWindows :: "env \<Rightarrow> bool" where
  "isWindows env = (platform env = ''win32'')"

definition isMac :: "env \<Rightarrow> bool" where
  "isMac env = (platform env = ''darwin'')"

definition isLinux :: "env \<Rightarrow> bool" where
  "isLinux env = (platform env = ''linux'')"

text \<open>
  \<^verbatim>\<open>path.join\<close> of a directory in normal form (no separator at its end) and a
  single name: the two with the separator of the platform between them.
\<close>

definition path_join :: "env \<Rightarrow> string \<Rightarrow> string \<Rightarrow> string" where
  "path_join env a b = a @ (if isWindows env then [CHR 0x5C] else ''/'') @ b"

text \<open>
  \<^verbatim>\<open>path.dirname\<close> of a path in normal form: the path up to its last separator (on
  Windows both the backslash and the slash separate).
\<close>

definition isSeparator :: "env \<Rightarrow> char \<Rightarrow> bool" where
  "isSeparator env c = (c = CHR ''/'' \<or> (isWindows env \<and> c = CHR 0x5C))"

definition dirname :: "env \<Rightarrow> string \<Rightarrow> string" where
  "dirname env p =
     (case dropWhile (\<lambda>c. \<not> isSeparator env c) (rev p) of
        [] \<Rightarrow> ''.''
      | s # d \<Rightarrow> if d = [] then [s] else rev d)"

text \<open>
  \<^verbatim>\<open>fs.writeFileSync\<close> throws when the path is a directory (EISDIR) and when its
  parent is a regular file (ENOTDIR); otherwise the file has the new content.
\<close>

definition writeFileSync :: "env \<Rightarrow> string \<Rightarrow> string \<Rightarrow> world \<Rightarrow> string + world" where
  "writeFileSync env p d w =
     (if p \<in> dirs w
      then Inl (''EISDIR: illegal operation on a directory, open '' @ [CHR 0x27] @ p @ [CHR 0x27])
      else if files w (dirname env p) \<noteq> None
      then Inl (''ENOTDIR: not a directory, open '' @ [CHR 0x27] @ p @ [CHR 0x27])
      else Inr (w\<lparr>files := (files w)(p \<mapsto> d)\<rparr>))"

definition CONFIG_FILE :: "env \<Rightarrow> string" where
  "CONFIG_FILE env = path_join env (homedir env) ''.voice-cli-config.json''"

definition CACHE_DIR :: "env \<Rightarrow> string" where
  "CACHE_DIR env = path_join env (homedir env) ''.voice-cli-cache''"

definition getDownloadsPath :: "env \<Rightarrow> string" where
  "getDownloadsPath env = path_join env (homedir env) ''Downloads''"

definition getDocumentsPath :: "env \<Rightarrow> string" where
  "getDocumentsPath env = path_join env (homedir env) ''Documents''"

definition getDesktopPath :: "env \<Rightarrow> string" where
  "getDesktopPath env = path_join env (homedir env) ''Desktop''"

definition getTextEditor :: "env \<Rightarrow> string" where
  "getTextEditor env =
     (if isWindows env then ''notepad'' else if isMac env then ''TextEdit'' else ''gedit'')"

section \<open>The voice response\<close>

text \<open>The command \<^verbatim>\<open>playAudio\<close> builds for a file.\<close>

definition audioCommand :: "env \<Rightarrow> string \<Rightarrow> string" where
  \<open>audioCommand env filePath =
     (if isMac env then ''afplay "'' @ filePath @ ''"''
      else if isWindows env
      then ''powershell -c "(New-Object Media.SoundPlayer '' @ [CHR 0x27] @ filePath
             @ [CHR 0x27] @ '').PlaySync()"''
      else ''which mpg123 > /dev/null 2>&1 && mpg123 -q "'' @ filePath
             @ ''" || which aplay > /dev/null 2>&1 && aplay "'' @ filePath
             @ ''" || which paplay > /dev/null 2>&1 && paplay "'' @ filePath @ ''"'')\<close>

definition playAudio :: "env \<Rightarrow> string \<Rightarrow> world \<Rightarrow> world" where
  \<open>playAudio env filePath w =
     (let command = audioCommand env filePath;
          w1 = emit (Exec command) w
      in case exec_error env command of
           Some msg \<Rightarrow> console_log [E Muted, T '' Audio playback not available on this system''] w1
         | None \<Rightarrow> w1)\<close>

text \<open>The request \<^verbatim>\<open>getElevenLabsAudio\<close> sends: its options and its body.\<close>

definition ttsRequest :: "string \<Rightarrow> jsval \<Rightarrow> jsval \<Rightarrow> request" where
  "ttsRequest text apiKey voice =
     \<lparr>req_hostname = ''api.elevenlabs.io'', req_port = 443,
      req_path = ''/v1/text-to-speech/'' @ template voice,
      req_method = ''POST'', req_api_key = template apiKey,
      req_text = text, req_model_id = ''eleven_monolingual_v1''\<rparr>"

definition getElevenLabsAudio ::
  "env \<Rightarrow> string \<Rightarrow> jsval \<Rightarrow> jsval \<Rightarrow> world \<Rightarrow> world \<times> (string + string)" where
  "getElevenLabsAudio env text apiKey voice w =
     (let req = ttsRequest text apiKey voice;
          w1 = emit (Request req) w
      in case api env req of
           NetError msg \<Rightarrow> (w1, Inl msg)
         | Response status body \<Rightarrow>
             if status = 200 then (w1, Inr body)
             else (w1, Inl (''ElevenLabs API error: '' @ decimal status)))"

definition cachePath :: "env \<Rightarrow> string \<Rightarrow> string" where
  "cachePath env text = path_join env (CACHE_DIR env) (cacheKey text @ ''.mp3'')"

text \<open>The \<^verbatim>\<open>catch\<close> block of \<^verbatim>\<open>speakResponse\<close>.\<close>

definition speak_fallback :: "jsval \<Rightarrow> string \<Rightarrow> world \<Rightarrow> world" where
  \<open>speak_fallback text msg w =
     console_log [E Speech, T ('' "'' @ template text @ ''"'')]
       (console_log [E Cross, T ('' Voice response error: '' @ msg)] w)\<close>

definition speakResponse :: "env \<Rightarrow> config \<Rightarrow> jsval \<Rightarrow> world \<Rightarrow> world" where
  \<open>speakResponse env cfg text w =
     (if voiceEnabled cfg = JBool False
      then console_log [E Muted, T ('' Voice disabled: "'' @ template text @ ''"'')] w
      else
        let apiKey = elevenLabsApiKey cfg
        in if \<not> truthy apiKey \<or> apiKey = JStr ''your-api-key-here''
           then console_log
                  [E Info, T ''  Add ElevenLabs API key for voice responses: voice-cli --setup'']
                  (console_log [E Speech, T ('' "'' @ template text @ ''"'')] w)
           else
             let w1 = console_log [E Speaking, T (''  "'' @ template text @ ''"'')] w;
                 w2 = (if \<not> existsSync w1 (CACHE_DIR env) then mkdirSync (CACHE_DIR env) w1
                       else w1)
             in case text of
                  JStr s \<Rightarrow>
                    if existsSync w2 (cachePath env s)
                    then playAudio env (cachePath env s)
                           (console_log [E Headphone, T '' Playing cached response...''] w2)
                    else
                      let w3 = console_log [E Microphone, T '' Generating voice response...''] w2
                      in (case getElevenLabsAudio env s apiKey
                                 (if truthy (voiceId cfg) then voiceId cfg
                                  else JStr DEFAULT_VOICE_ID) w3 of
                            (w4, Inl msg) \<Rightarrow> speak_fallback text msg w4
                          | (w4, Inr audioData) \<Rightarrow>
                              (case writeFileSync env (cachePath env s) audioData w4 of
                                 Inl msg \<Rightarrow> speak_fallback text msg w4
                               | Inr w5 \<Rightarrow> playAudio env (cachePath env s) w5))
                | _ \<Rightarrow> speak_fallback text (update_error env text) w2)\<close>

section \<open>The actions\<close>

definition executeCommand :: "env \<Rightarrow> string \<Rightarrow> string \<Rightarrow> world \<Rightarrow> world \<times> bool" where
  "executeCommand env command successMessage w =
     (let w1 = emit (Exec command) w
      in case exec_error env command of
           Some msg \<Rightarrow> (console_log [E Cross, T ('' Error: '' @ msg)] w1, False)
         | None \<Rightarrow> (console_log [E Check, T ('' '' @ successMessage)] w1, True))"

definition openBrowser :: "env \<Rightarrow> string \<Rightarrow> world \<Rightarrow> world \<times> bool" where
  "openBrowser env url w =
     (let command = (if isWindows env then ''start '' @ url
                     else if isMac env then ''open '' @ url
                     else ''xdg-open '' @ url)
      in executeCommand env command
           (''Browser opened'' @ (if url \<noteq> [] then '' to '' @ url else [])) w)"

definition openTerminal :: "env \<Rightarrow> string \<Rightarrow> world \<Rightarrow> world \<times> bool" where
  \<open>openTerminal env directory w =
     (let command = (if isWindows env then ''start cmd /k cd /d "'' @ directory @ ''"''
                     else if isMac env then ''open -a Terminal "'' @ directory @ ''"''
                     else ''gnome-terminal --working-directory="'' @ directory @ ''"'')
      in executeCommand env command (''Terminal opened in '' @ directory) w)\<close>

definition openFolder :: "env \<Rightarrow> string \<Rightarrow> world \<Rightarrow> world \<times> bool" where
  \<open>openFolder env folderPath w =
     (if \<not> existsSync w folderPath
      then (console_log [E Cross, T ('' Folder not found: '' @ folderPath)] w, False)
      else
        let command = (if isWindows env then ''explorer "'' @ folderPath @ ''"''
                       else if isMac env then ''open "'' @ folderPath @ ''"''
                       else ''xdg-open "'' @ folderPath @ ''"'')
        in executeCommand env command (''Opened folder: '' @ folderPath) w)\<close>

definition openApplication :: "env \<Rightarrow> string \<Rightarrow> world \<Rightarrow> world \<times> bool" where
  \<open>openApplication env appName w =
     (let command = (if isWindows env then ''start "" "'' @ appName @ ''"''
                     else if isMac env then ''open -a "'' @ appName @ ''"''
                     else toLowerCase appName)
      in executeCommand env command (''Launched '' @ appName) w)\<close>

definition showTime :: "env \<Rightarrow> world \<Rightarrow> world \<times> bool" where
  "showTime env w =
     (console_log [E Clock, T ('' Current time: '' @ toLocaleString env (clock w))] w, True)"

definition showSystemInfo :: "env \<Rightarrow> world \<Rightarrow> world \<times> bool" where
  "showSystemInfo env w =
     (console_log [T (''   Home: '' @ homedir env)]
       (console_log [T (''   Node.js: '' @ node_version env)]
         (console_log [T (''   Architecture: '' @ arch env)]
           (console_log [T (''   Platform: '' @ platform env)]
             (console_log [E Laptop, T '' System Information:''] w)))), True)"

section \<open>The command registry\<close>

record entry_basic =
  description :: string
  execute :: "world \<Rightarrow> world \<times> bool"

record entry = entry_basic +
  response :: string

text \<open>
  \<^verbatim>\<open>VOICE_COMMANDS\<close> is an object literal: its own properties in the order they are
  written. It is built once, when the script is loaded; the template literal of the
  response of \<^verbatim>\<open>'what time is it'\<close> is evaluated then.
\<close>

definition VOICE_COMMANDS :: "env \<Rightarrow> (string \<times> entry) list" where
  "VOICE_COMMANDS env =
   [(''open browser'',
       \<lparr>description = ''Opens your default web browser'',
        execute = openBrowser env [],
        response = ''Opening your browser now!''\<rparr>),
    (''open google'',
       \<lparr>description = ''Opens Google in your browser'',
        execute = openBrowser env ''https://google.com'',
        response = ''Taking you to Google!''\<rparr>),
    (''open terminal'',
       \<lparr>description = ''Opens a new terminal window'',
        execute = openTerminal env (homedir env),
        response = ''Opening a new terminal for you!''\<rparr>),
    (''open command prompt'',
       \<lparr>description = ''Opens command prompt (Windows) or terminal (Mac/Linux)'',
        execute = openTerminal env (homedir env),
        response = ''Opening command prompt!''\<rparr>),
    (''open downloads'',
       \<lparr>description = ''Opens your downloads folder'',
        execute = openFolder env (getDownloadsPath env),
        response = ''Opening your downloads folder!''\<rparr>),
    (''open documents'',
       \<lparr>description = ''Opens your documents folder'',
        execute = openFolder env (getDocumentsPath env),
        response = ''Opening your documents folder!''\<rparr>),
    (''open desktop'',
       \<lparr>description = ''Opens your desktop folder'',
        execute = openFolder env (getDesktopPath env),
        response = ''Opening your desktop!''\<rparr>),
    (''open calculator'',
       \<lparr>description = ''Opens the calculator app'',
        execute = openApplication env ''Calculator'',
        response = ''Opening calculator for you!''\<rparr>),
    (''open notepad'',
       \<lparr>description = ''Opens text editor (Notepad/TextEdit)'',
        execute = openApplication env (getTextEditor env),
        response = ''Opening your text editor!''\<rparr>),
    (''what time is it'',
       \<lparr>description = ''Shows current time'',
        execute = showTime env,
        response = ''It's '' @ toLocaleTimeString env (load_time env)\<rparr>),
    (''system info'',
       \<lparr>description = ''Shows basic system information'',
        execute = showSystemInfo env,
        response = ''Here is your system information''\<rparr>)]"

definition VOICE_COMMANDS_basic :: "env \<Rightarrow> (string \<times> entry_basic) list" where
  "VOICE_COMMANDS_basic env =
   [(''open browser'',
       \<lparr>description = ''Opens your default web browser'',
        execute = openBrowser env []\<rparr>),
    (''open google'',
       \<lparr>description = ''Opens Google in your browser'',
        execute = openBrowser env ''https://google.com''\<rparr>),
    (''open terminal'',
       \<lparr>description = ''Opens a new terminal window'',
        execute = openTerminal env (homedir env)\<rparr>),
    (''open command prompt'',
       \<lparr>description = ''Opens command prompt (Windows) or terminal (Mac/Linux)'',
        execute = openTerminal env (homedir env)\<rparr>),
    (''open downloads'',
       \<lparr>description = ''Opens your downloads folder'',
        execute = openFolder env (getDownloadsPath env)\<rparr>),
    (''open documents'',
       \<lparr>description = ''Opens your documents folder'',
        execute = openFolder env (getDocumentsPath env)\<rparr>),
    (''open desktop'',
       \<lparr>description = ''Opens your desktop folder'',
        execute = openFolder env (getDesktopPath env)\<rparr>),
    (''open calculator'',
       \<lparr>description = ''Opens the calculator app'',
        execute = openApplication env ''Calculator''\<rparr>),
    (''open notepad'',
       \<lparr>description = ''Opens text editor (Notepad/TextEdit)'',
        execute = openApplication env (getTextEditor env)\<rparr>),
    (''what time is it'',
       \<lparr>description = ''Shows current time'',
        execute = showTime env\<rparr>),
    (''system info'',
       \<lparr>description = ''Shows basic system information'',
        execute = showSystemInfo env\<rparr>)]"

text \<open>
  \<^verbatim>\<open>VOICE_COMMANDS[normalizedCommand]\<close> reads a property of a plain object: an own
  property if there is one, else the property of that name of \<^verbatim>\<open>Object.prototype\<close>
  (a function or an object, so a truthy value without \<^verbatim>\<open>description\<close>,
  \<^verbatim>\<open>response\<close> or \<^verbatim>\<open>execute\<close>), else \<^verbatim>\<open>undefined\<close>.
\<close>

definition object_prototype_keys :: "string list" where
  "object_prototype_keys =
     [''constructor'', ''__defineGetter__'', ''__defineSetter__'', ''hasOwnProperty'',
      ''__lookupGetter__'', ''__lookupSetter__'', ''isPrototypeOf'', ''propertyIsEnumerable'',
      ''toString'', ''valueOf'', ''__proto__'', ''toLocaleString'']"

datatype 'a property = Own 'a | Inherited string | Absent

definition get_property :: "(string \<times> 'a) list \<Rightarrow> string \<Rightarrow> 'a property" where
  "get_property obj key =
     (case map_of obj key of
        Some v \<Rightarrow> Own v
      | None \<Rightarrow> if key \<in> set object_prototype_keys then Inherited key else Absent)"

section \<open>Dispatch\<close>

definition backslash_n :: string where
  "backslash_n = [CHR 0x5C, CHR ''n'']"

definition showAvailableCommands :: "env \<Rightarrow> world \<Rightarrow> world" where
  \<open>showAvailableCommands env w =
     console_log [T backslash_n, E Bulb, T '' Tip: Commands are case-insensitive'']
       (foldl (\<lambda>w' (command, info).
                 console_log [T (''   "'' @ command @ ''" - '' @ description info)] w')
          (console_log [T backslash_n, E StudioMic,
                        T (''  Available Voice Commands:'' @ backslash_n)] w)
          (VOICE_COMMANDS env))\<close>

definition showAvailableCommands_basic :: "env \<Rightarrow> world \<Rightarrow> world" where
  \<open>showAvailableCommands_basic env w =
     console_log [T ''\<newline>'', E Bulb, T '' Tip: Commands are case-insensitive'']
       (foldl (\<lambda>w' (command, info).
                 console_log [T (''   "'' @ command @ ''" - '' @ description info)] w')
          (console_log [T ''\<newline>'', E StudioMic,
                        T ''  Available Voice Commands:\<newline>''] w)
          (VOICE_COMMANDS_basic env))\<close>

text \<open>
  The result of \<^verbatim>\<open>executeVoiceCommand\<close> is \<open>Inr success\<close> when the promise is
  fulfilled and \<open>Inl message\<close> when it is rejected with an error of that message.
  \<open>runEntry\<close> is the branch \<^verbatim>\<open>if (command) { ... }\<close> of the function for an entry of
  the registry.
\<close>

definition runEntry :: "env \<Rightarrow> config \<Rightarrow> entry \<Rightarrow> world \<Rightarrow> world \<times> (string + bool)" where
  "runEntry env cfg command w1 =
     (let w2 = console_log [E Clipboard, T ('' '' @ description command)] w1;
          w3 = speakResponse env cfg (JStr (response command)) w2;
          (w4, success) = execute command w3
      in if success
         then (speakResponse env cfg (JStr ''Done!'')
                 (console_log [E Party, T '' Command completed successfully!''] w4),
               Inr success)
         else (speakResponse env cfg
                 (JStr ''Sorry, there was an error with that command.'') w4,
               Inr success))"

definition runEntry_basic :: "entry_basic \<Rightarrow> world \<Rightarrow> world \<times> (string + bool)" where
  "runEntry_basic command w1 =
     (let w2 = console_log [E Clipboard, T ('' '' @ description command)] w1;
          (w3, success) = execute command w2
      in if success
         then (console_log [E Party, T '' Command completed successfully!''] w3, Inr success)
         else (w3, Inr success))"

definition executeVoiceCommand ::
  "env \<Rightarrow> config \<Rightarrow> string \<Rightarrow> world \<Rightarrow> world \<times> (string + bool)" where
  \<open>executeVoiceCommand env cfg commandText w =
     (let normalizedCommand = trim (toLowerCase commandText);
          w1 = console_log [E Speaking, T (''  Voice command: "'' @ commandText @ ''"'')] w
      in case get_property (VOICE_COMMANDS env) normalizedCommand of
           Own command \<Rightarrow> runEntry env cfg command w1
         | Inherited k \<Rightarrow>
             let w2 = console_log [E Clipboard, T ('' '' @ template JUndefined)] w1;
                 w3 = speakResponse env cfg JUndefined w2
             in (w3, Inl ''command.execute is not a function'')
         | Absent \<Rightarrow>
             let w2 = console_log [E Question, T ('' Unknown command: "'' @ commandText @ ''"'')] w1;
                 w3 = speakResponse env cfg
                        (JStr ''I didn't understand that command. Try asking for help.'') w2;
                 w4 = console_log [E Bulb, T '' Try one of these commands:''] w3
             in (showAvailableCommands env w4, Inr False))\<close>

definition executeVoiceCommand_basic ::
  "env \<Rightarrow> string \<Rightarrow> world \<Rightarrow> world \<times> (string + bool)" where
  \<open>executeVoiceCommand_basic env commandText w =
     (let normalizedCommand = trim (toLowerCase commandText);
          w1 = console_log [E Speaking, T (''  Voice command: "'' @ commandText @ ''"'')] w
      in case get_property (VOICE_COMMANDS_basic env) normalizedCommand of
           Own command \<Rightarrow> runEntry_basic command w1
         | Inherited k \<Rightarrow>
             (console_log [E Clipboard, T ('' '' @ template JUndefined)] w1,
              Inl ''command.execute is not a function'')
         | Absent \<Rightarrow>
             let w2 = console_log [E Question, T ('' Unknown command: "'' @ commandText @ ''"'')] w1;
                 w3 = console_log [E Bulb, T '' Try one of these commands:''] w2
             in (showAvailableCommands_basic env w3, Inr False))\<close>

section \<open>Configuration file, help and setup\<close>

definition default_config :: config where
  "default_config =
     \<lparr>cfg_version = JUndefined, cfg_platform = JUndefined, setupDate = JUndefined,
      voiceEnabled = JBool False, elevenLabsApiKey = JStr ''your-api-key-here'',
      voiceId = JStr DEFAULT_VOICE_ID, preferences = None\<rparr>"

definition loadConfig :: "env \<Rightarrow> world \<Rightarrow> config \<times> world" where
  "loadConfig env w =
     (if existsSync w (CONFIG_FILE env)
      then (case readFileSync w (CONFIG_FILE env) of
              Inl msg \<Rightarrow>
                (default_config,
                 console_log [E Warning, T (''  Could not load config: '' @ msg)] w)
            | Inr d \<Rightarrow>
                (case json_parse env d of
                   Inl msg \<Rightarrow>
                     (default_config,
                      console_log [E Warning, T (''  Could not load config: '' @ msg)] w)
                 | Inr cfg \<Rightarrow> (cfg, w)))
      else (default_config, w))"

definition saveConfig :: "env \<Rightarrow> config \<Rightarrow> world \<Rightarrow> world" where
  "saveConfig env cfg w =
     (case writeFileSync env (CONFIG_FILE env) (json_stringify env cfg) w of
        Inr w1 \<Rightarrow> console_log [E Check, T ('' Configuration saved to '' @ CONFIG_FILE env)] w1
      | Inl msg \<Rightarrow> console_log [E Cross, T ('' Could not save config: '' @ msg)] w)"

definition unlines :: "string list \<Rightarrow> string" where
  "unlines ls = concat (map (\<lambda>l. l @ ''\<newline>'') ls)"

definition showHelp :: "world \<Rightarrow> world" where
  \<open>showHelp w =
     console_log
       [T ''\<newline>'', E Microphone,
        T (unlines
          ['' Voice CLI v'' @ VERSION @ '' - Control your computer with voice commands'',
           [],
           ''USAGE:'',
           ''  voice-cli                    Start interactive voice mode'',
           ''  voice-cli "open browser"     Execute a single voice command'',
           ''  voice-cli --list            Show all available commands'',
           ''  voice-cli --setup           Initial setup and configuration'',
           ''  voice-cli --help            Show this help message'',
           [],
           ''EXAMPLES:'',
           ''  voice-cli "open terminal"'',
           ''  voice-cli "open downloads"  '',
           ''  voice-cli "what time is it"'',
           [],
           ''VOICE RESPONSES:'',
           ''  Add your ElevenLabs API key during setup for AI voice responses!'',
           ''  Without API key, responses will be text-only.'',
           [],
           ''For more information, visit: https://github.com/Alec-Hermesmeyer/voice-cli''])] w\<close>

definition showHelp_basic :: "world \<Rightarrow> world" where
  \<open>showHelp_basic w =
     console_log
       [T ''\<newline>'', E Microphone,
        T (unlines
          ['' Voice CLI v'' @ VERSION_basic @ '' - Control your computer with voice commands'',
           [],
           ''USAGE:'',
           ''  voice-cli                    Start interactive voice mode'',
           ''  voice-cli "open browser"     Execute a single voice command'',
           ''  voice-cli --list            Show all available commands'',
           ''  voice-cli --setup           Initial setup and configuration'',
           ''  voice-cli --help            Show this help message'',
           [],
           ''EXAMPLES:'',
           ''  voice-cli "open terminal"'',
           ''  voice-cli "open downloads"'',
           ''  voice-cli "what time is it"'',
           [],
           ''For more information, visit: https://github.com/yourcompany/voice-cli''])] w\<close>

text \<open>
  An asynchronous function of the program either comes to its end or stays suspended on
  input that does not arrive. \<open>inputs\<close> are the lines the user types, in order.
\<close>

datatype status = Finished | Waiting

definition setupConfiguration :: "env \<Rightarrow> string list \<Rightarrow> world \<Rightarrow> world \<times> status" where
  \<open>setupConfiguration env inputs w =
     (let w1 = console_log [E Wrench, T '' Voice CLI Setup - Enable AI Voice Responses''] w;
          w2 = console_log
                 [T ''\<newline>'', E Microphone,
                  T '' To enable voice responses, you'll need an ElevenLabs API key:''] w1;
          w3 = console_log
                 [T ''   1. Sign up at https://elevenlabs.io (free tier available)''] w2;
          w4 = console_log [T ''   2. Go to your profile and copy your API key''] w3;
          w5 = console_log [T ''   3. Run this setup again with your API key\<newline>''] w4;
          w6 = emit (Write [T ''Enter your ElevenLabs API key (or press Enter to skip): '']) w5
      in case inputs of
           [] \<Rightarrow> (w6, Waiting)
         | apiKey # rest \<Rightarrow>
             let cfg = \<lparr>cfg_version = JStr VERSION,
                        cfg_platform = JStr (platform env),
                        setupDate = JStr (toISOString env (clock w6)),
                        voiceEnabled = (if apiKey = [] then JStr [] else JBool (trim apiKey \<noteq> [])),
                        elevenLabsApiKey =
                          JStr (if trim apiKey \<noteq> [] then trim apiKey else ''your-api-key-here''),
                        voiceId = JStr DEFAULT_VOICE_ID,
                        preferences = Some (False, True)\<rparr>;
                 w7 = saveConfig env cfg w6
             in if truthy (voiceEnabled cfg)
                then (console_log
                        [E Check, T '' Voice responses enabled! Try: voice-cli "open browser"''] w7,
                      Finished)
                else (console_log [T ''   Run setup again anytime to add voice responses.'']
                        (console_log
                           [E Check, T '' Setup complete! Voice responses disabled (text-only mode)'']
                           w7),
                      Finished))\<close>

definition setupConfiguration_basic :: "env \<Rightarrow> world \<Rightarrow> world" where
  \<open>setupConfiguration_basic env w =
     (let w1 = console_log [E Wrench, T '' Voice CLI Setup''] w;
          w2 = console_log
                 [E Warning, T (''  Note: This is a basic version. Advanced features like real ''
                                @ ''voice recognition'')] w1;
          w3 = console_log [T ''   can be added later with speech-to-text services.''] w2;
          cfg = \<lparr>cfg_version = JStr VERSION_basic,
                 cfg_platform = JStr (platform env),
                 setupDate = JStr (toISOString env (clock w3)),
                 voiceEnabled = JUndefined, elevenLabsApiKey = JUndefined, voiceId = JUndefined,
                 preferences = Some (False, True)\<rparr>;
          w4 = saveConfig env cfg w3
      in console_log [E Check, T '' Setup complete! Try: voice-cli "open browser"''] w4)\<close>

section \<open>Interactive mode and the entry point\<close>

definition listening_prompt :: "seg list" where
  "listening_prompt = [E Microphone, T '' Listening... (Type your voice command): '']"

text \<open>
  The loop of \<^verbatim>\<open>interactiveMode\<close>: \<^verbatim>\<open>simulateVoiceRecognition\<close> writes the prompt
  and resolves to the next line, trimmed and in lower case.
\<close>

fun interactiveLoop :: "env \<Rightarrow> config \<Rightarrow> string list \<Rightarrow> world \<Rightarrow> world \<times> status" where
  "interactiveLoop env cfg [] w = (emit (Write listening_prompt) w, Waiting)"
| "interactiveLoop env cfg (d # ds) w =
     (let w1 = emit (Write listening_prompt) w;
          command = toLowerCase (trim d)
      in if command = ''quit'' \<or> command = ''exit'' \<or> command = ''stop''
         then (console_log [E Wave, T '' Goodbye!'']
                 (speakResponse env cfg (JStr ''Goodbye!'') w1), Finished)
         else if command = ''help'' \<or> command = ''list''
         then interactiveLoop env cfg ds
                (speakResponse env cfg (JStr ''Here are the available commands'')
                   (showAvailableCommands env w1))
         else (case executeVoiceCommand env cfg command w1 of
                 (w2, Inr success) \<Rightarrow> interactiveLoop env cfg ds (console_log [] w2)
               | (w2, Inl msg) \<Rightarrow>
                   interactiveLoop env cfg ds
                     (console_log [E Cross, T ('' Error: '' @ msg)] w2)))"

fun interactiveLoop_basic :: "env \<Rightarrow> string list \<Rightarrow> world \<Rightarrow> world \<times> status" where
  "interactiveLoop_basic env [] w = (emit (Write listening_prompt) w, Waiting)"
| "interactiveLoop_basic env (d # ds) w =
     (let w1 = emit (Write listening_prompt) w;
          command = toLowerCase (trim d)
      in if command = ''quit'' \<or> command = ''exit'' \<or> command = ''stop''
         then (console_log [E Wave, T '' Goodbye!''] w1, Finished)
         else if command = ''help'' \<or> command = ''list''
         then interactiveLoop_basic env ds (showAvailableCommands_basic env w1)
         else (case executeVoiceCommand_basic env command w1 of
                 (w2, Inr success) \<Rightarrow> interactiveLoop_basic env ds (console_log [] w2)
               | (w2, Inl msg) \<Rightarrow>
                   interactiveLoop_basic env ds
                     (console_log [E Cross, T ('' Error: '' @ msg)] w2)))"

definition interactiveMode :: "env \<Rightarrow> string list \<Rightarrow> world \<Rightarrow> world \<times> status" where
  "interactiveMode env inputs w =
     (let (cfg, w0) = loadConfig env w;
          w1 = console_log [E Microphone, T ('' Voice CLI v'' @ VERSION @ '' - Interactive Mode'')] w0;
          w2 = console_log [E Bulb, T '' Type voice commands or 'quit' to exit''] w1;
          w3 = (if truthy (voiceEnabled cfg) \<and> truthy (elevenLabsApiKey cfg)
                   \<and> elevenLabsApiKey cfg \<noteq> JStr ''your-api-key-here''
                then speakResponse env cfg
                       (JStr ''Voice CLI ready! What would you like me to do?'')
                       (console_log
                          [E Speaking, T (''  AI voice responses enabled!'' @ backslash_n)] w2)
                else console_log
                       [E Muted, T ('' Voice responses disabled. Run 'voice-cli --setup' to enable.''
                                    @ backslash_n)] w2)
      in interactiveLoop env cfg inputs w3)"

definition interactiveMode_basic :: "env \<Rightarrow> string list \<Rightarrow> world \<Rightarrow> world \<times> status" where
  "interactiveMode_basic env inputs w =
     (let w1 = console_log
                 [E Microphone, T ('' Voice CLI v'' @ VERSION_basic @ '' - Interactive Mode'')] w;
          w2 = console_log [E Bulb, T '' Type voice commands or 'quit' to exit\<newline>''] w1
      in interactiveLoop_basic env inputs w2)"

text \<open>
  \<^verbatim>\<open>main\<close>: \<open>args\<close> is \<^verbatim>\<open>process.argv.slice(2)\<close>. The result is \<open>Inl message\<close>
  when the promise of \<^verbatim>\<open>main\<close> is rejected.
\<close>

definition main :: "env \<Rightarrow> string list \<Rightarrow> string list \<Rightarrow> world \<Rightarrow> world \<times> (string + status)" where
  "main env args inputs w =
     (case args of
        [] \<Rightarrow> (case interactiveMode env inputs w of (w', st) \<Rightarrow> (w', Inr st))
      | firstArg # rest \<Rightarrow>
          let (cfg, w1) = loadConfig env w
          in if firstArg = ''--help'' \<or> firstArg = ''-h''
             then (showHelp w1, Inr Finished)
             else if firstArg = ''--setup''
             then (case setupConfiguration env inputs w1 of (w2, st) \<Rightarrow> (w2, Inr st))
             else if firstArg = ''--list'' \<or> firstArg = ''--commands''
             then (showAvailableCommands env w1, Inr Finished)
             else if firstArg = ''--version'' \<or> firstArg = ''-v''
             then (console_log [T (''Voice CLI v'' @ VERSION)] w1, Inr Finished)
             else (case executeVoiceCommand env cfg (join_space args) w1 of
                     (w2, Inl msg) \<Rightarrow> (w2, Inl msg)
                   | (w2, Inr success) \<Rightarrow> (w2, Inr Finished)))"

definition main_basic ::
  "env \<Rightarrow> string list \<Rightarrow> string list \<Rightarrow> world \<Rightarrow> world \<times> (string + status)" where
  "main_basic env args inputs w =
     (case args of
        [] \<Rightarrow> (case interactiveMode_basic env inputs w of (w', st) \<Rightarrow> (w', Inr st))
      | firstArg # rest \<Rightarrow>
          if firstArg = ''--help'' \<or> firstArg = ''-h''
          then (showHelp_basic w, Inr Finished)
          else if firstArg = ''--setup''
          then (setupConfiguration_basic env w, Inr Finished)
          else if firstArg = ''--list'' \<or> firstArg = ''--commands''
          then (showAvailableCommands_basic env w, Inr Finished)
          else if firstArg = ''--version'' \<or> firstArg = ''-v''
          then (console_log [T (''Voice CLI v'' @ VERSION_basic)] w, Inr Finished)
          else (case executeVoiceCommand_basic env (join_space args) w of
                  (w2, Inl msg) \<Rightarrow> (w2, Inl msg)
                | (w2, Inr success) \<Rightarrow> (w2, Inr Finished)))"

text \<open>
  The last statement of the script, \<^verbatim>\<open>main().catch(...)\<close>: a rejection is printed and
  the process exits with code 1 (\<open>Some 1\<close>); otherwise \<^verbatim>\<open>process.exit\<close> is not called.
\<close>

definition run_cli :: "env \<Rightarrow> string list \<Rightarrow> string list \<Rightarrow> world \<Rightarrow> world \<times> nat option" where
  "run_cli env args inputs w =
     (case main env args inputs w of
        (w', Inl msg) \<Rightarrow> (console_log [E Cross, T ('' Error: '' @ msg)] w', Some 1)
      | (w', Inr st) \<Rightarrow> (w', None))"

definition run_cli_basic :: "env \<Rightarrow> string list \<Rightarrow> string list \<Rightarrow> world \<Rightarrow> world \<times> nat option" where
  "run_cli_basic env args inputs w =
     (case main_basic env args inputs w of
        (w', Inl msg) \<Rightarrow> (console_log [E Cross, T ('' Error: '' @ msg)] w', Some 1)
      | (w', Inr st) \<Rightarrow> (w', None))"

section \<open>A concrete environment\<close>

text \<open>
  The events the program has added to the trace between two states.
\<close>

definition events_since :: "world \<Rightarrow> world \<Rightarrow> event list" where
  "events_since w w' = drop (length (trace w)) (trace w')"

text \<open>
  A Linux machine on which every command succeeds and the remote service answers 200 with
  the three bytes \<open>ABC\<close>. The date formats print the number of the clock, the parser
  knows the empty object and rejects every other content. It is used to evaluate the
  program on concrete inputs.
\<close>

definition example_env :: env where
  \<open>example_env =
     \<lparr>platform = ''linux'', arch = ''x64'', node_version = ''v18.17.0'',
      homedir = ''/home/user'',
      exec_error = (\<lambda>c. None),
      api = (\<lambda>r. Response 200 ''ABC''),
      load_time = 1000,
      toLocaleTimeString = decimal, toLocaleString = decimal, toISOString = decimal,
      json_parse =
        (\<lambda>d. if d = ''{}''
             then Inr \<lparr>cfg_version = JUndefined, cfg_platform = JUndefined,
                       setupDate = JUndefined, voiceEnabled = JUndefined,
                       elevenLabsApiKey = JUndefined, voiceId = JUndefined,
                       preferences = None\<rparr>
             else Inl ''Unexpected end of JSON input''),
      json_stringify = (\<lambda>c. ''{}''),
      update_error = (\<lambda>v. ''The "data" argument must be of type string or an instance of ''
                        @ ''Buffer, TypedArray, or DataView. Received '' @ template v)\<rparr>\<close>

definition voice_config :: config where
  "voice_config = default_config\<lparr>voiceEnabled := JBool True, elevenLabsApiKey := JStr ''sk_test''\<rparr>"

definition empty_world :: world where
  "empty_world = \<lparr>dirs = {}, files = Map.empty, clock = 2000, trace = []\<rparr>"

section \<open>Facts about the state\<close>

lemma emit_simps [simp]:
  "trace (emit e w) = trace w @ [e]"
  "files (emit e w) = files w"
  "dirs (emit e w) = dirs w"
  "clock (emit e w) = clock w"
  by (simp_all add: emit_def)

lemma console_log_simps [simp]:
  "trace (console_log l w) = trace w @ [Log l]"
  "files (console_log l w) = files w"
  "dirs (console_log l w) = dirs w"
  "clock (console_log l w) = clock w"
  by (simp_all add: console_log_def)

lemma mkdirSync_simps [simp]:
  "trace (mkdirSync p w) = trace w"
  "files (mkdirSync p w) = files w"
  "dirs (mkdirSync p w) = insert p (dirs w)"
  "clock (mkdirSync p w) = clock w"
  by (simp_all add: mkdirSync_def)

lemma existsSync_simps [simp]:
  "existsSync (emit e w) p = existsSync w p"
  "existsSync (console_log l w) p = existsSync w p"
  "existsSync (mkdirSync d w) p = (p = d \<or> existsSync w p)"
  by (auto simp add: existsSync_def)

lemma events_since_append: "trace w' = trace w @ evs \<Longrightarrow> events_since w w' = evs"
  by (simp add: events_since_def)

lemma trace_playAudio:
  "trace (playAudio env f w) =
     trace w @ Exec (audioCommand env f)
       # (case exec_error env (audioCommand env f) of
            None \<Rightarrow> []
          | Some msg \<Rightarrow> [Log [E Muted, T '' Audio playback not available on this system'']])"
  by (simp add: playAudio_def Let_def split: option.split)

lemma playAudio_simps [simp]:
  "files (playAudio env f w) = files w"
  "dirs (playAudio env f w) = dirs w"
  "clock (playAudio env f w) = clock w"
  by (simp_all add: playAudio_def Let_def split: option.split)

lemma loadConfig_simps [simp]:
  "files (snd (loadConfig env w)) = files w"
  "dirs (snd (loadConfig env w)) = dirs w"
  by (simp_all add: loadConfig_def split: sum.split)

lemma cachePath_neq_CACHE_DIR: "cachePath env text \<noteq> CACHE_DIR env"
  by (simp add: cachePath_def path_join_def)

lemma voiceEnabled_default: "voiceEnabled default_config = JBool False"
  by (simp add: default_config_def)

lemma trace_empty_world: "trace empty_world = []"
  by (simp add: empty_world_def)

lemma existsSync_empty_world: "\<not> existsSync empty_world p"
  by (simp add: existsSync_def empty_world_def)

lemma events_since_empty_world: "events_since empty_world w = trace w"
  by (simp add: events_since_def trace_empty_world)

lemma voice_config_simps:
  "voiceEnabled voice_config = JBool True"
  "elevenLabsApiKey voice_config = JStr ''sk_test''"
  "voiceId voice_config = JStr DEFAULT_VOICE_ID"
  by (simp_all add: voice_config_def default_config_def)

lemma example_env_simps:
  "platform example_env = ''linux''"
  "homedir example_env = ''/home/user''"
  "exec_error example_env c = None"
  "api example_env r = Response 200 ''ABC''"
  "load_time example_env = 1000"
  "toLocaleTimeString example_env = decimal"
  "toLocaleString example_env = decimal"
  "json_parse example_env ''{'' = Inl ''Unexpected end of JSON input''"
  by (simp_all add: example_env_def)

lemma loadConfig_empty_world: "loadConfig example_env empty_world = (default_config, empty_world)"
  by (simp add: loadConfig_def existsSync_def empty_world_def)

lemma decimal_examples: "decimal 401 = ''401''" "decimal 1000 = ''1000''" "decimal 2000 = ''2000''"
  by code_simp+

section \<open>The cache key\<close>

lemma length_le_bytes: "length (le_bytes k w) = k"
  by (simp add: le_bytes_def)

lemma length_md5: "length (md5 m) = 16"
  by (simp add: md5_def Let_def length_le_bytes split: prod.split)

lemma length_hex: "length (hex bs) = 2 * length bs"
  by (induction bs) (simp_all add: hex_def hex_byte_def)

lemma length_md5_hex: "length (md5_hex s) = 32"
  by (simp add: md5_hex_def length_hex length_md5)

lemma hex_digit_set: "hex_digit n \<in> set ''0123456789abcdef''"
proof -
  have "n mod 16 < length ''0123456789abcdef''" by simp
  then show ?thesis unfolding hex_digit_def by (rule nth_mem)
qed

lemma set_hex: "set (hex bs) \<subseteq> set ''0123456789abcdef''"
  unfolding hex_def hex_byte_def using hex_digit_set by (induction bs) auto

text \<open>
  Two digests computed by the definitions above: the test vector of RFC 1321 for
  \<^verbatim>\<open>abc\<close>, and the key of the text \<^verbatim>\<open>Done!\<close>, whose digest is
  \<^verbatim>\<open>d3de52109c609784f2e4a28d0e9fdb97\<close>.
\<close>

lemma md5_hex_abc: "md5_hex ''abc'' = ''900150983cd24fb0d6963f7d28e17f72''"
  by code_simp

lemma cacheKey_Done: "cacheKey ''Done!'' = ''d3de52109c''"
  by code_simp

lemma cachePath_Done:
  "cachePath example_env ''Done!'' = ''/home/user/.voice-cli-cache/d3de52109c.mp3''"
  by (simp add: cachePath_def CACHE_DIR_def path_join_def isWindows_def example_env_def cacheKey_Done)

lemma set_cacheKey: "set (cacheKey text) \<subseteq> set ''0123456789abcdef''"
proof -
  have "set (cacheKey text) \<subseteq> set (md5_hex text)"
    unfolding cacheKey_def by (rule set_take_subset)
  also have "\<dots> \<subseteq> set ''0123456789abcdef''"
    unfolding md5_hex_def by (rule set_hex)
  finally show ?thesis .
qed

lemma cacheKey_no_separator: "\<forall>c\<in>set (cacheKey text @ ''.mp3''). \<not> isSeparator env c"
proof
  fix c
  assume "c \<in> set (cacheKey text @ ''.mp3'')"
  then have "c \<in> set (cacheKey text) \<or> c \<in> set ''.mp3''"
    by (simp only: set_append Un_iff)
  moreover have "set (cacheKey text) \<subseteq> set ''0123456789abcdef''"
    by (rule set_cacheKey)
  ultimately have "c \<in> set ''0123456789abcdef'' \<or> c \<in> set ''.mp3''"
    by blast
  then show "\<not> isSeparator env c"
    by (auto simp add: isSeparator_def)
qed

lemma dirname_path_join:
  assumes "\<forall>c\<in>set b. \<not> isSeparator env c" and "a \<noteq> []"
  shows "dirname env (path_join env a b) = a"
proof -
  obtain s where s: "path_join env a b = a @ s # b" "isSeparator env s"
    by (cases "isWindows env") (simp_all add: path_join_def isSeparator_def)
  from assms(1) have "dropWhile (\<lambda>c. \<not> isSeparator env c) (rev b) = []"
    by simp
  with s(2) have "dropWhile (\<lambda>c. \<not> isSeparator env c) (rev b @ s # rev a) = s # rev a"
    by (simp add: dropWhile_append3)
  with assms(2) show ?thesis
    by (simp add: dirname_def s(1))
qed

lemma dirname_cachePath: "dirname env (cachePath env text) = CACHE_DIR env"
proof -
  have "CACHE_DIR env \<noteq> []"
    by (simp add: CACHE_DIR_def path_join_def)
  with cacheKey_no_separator show ?thesis
    unfolding cachePath_def by (rule dirname_path_join)
qed

text \<open>
  Claim C7. The cache key is a function of the text alone: \<^const>\<open>cacheKey\<close> has no other
  argument, so equal texts give equal keys whatever the configuration, the voice and the
  platform are. It is the first ten characters of the hexadecimal MD5 digest of the text:
  always ten characters, each a hexadecimal digit.
\<close>

theorem cacheKey_fixed_length:
  "cacheKey text = take 10 (md5_hex text)
   \<and> length (cacheKey text) = 10
   \<and> set (cacheKey text) \<subseteq> set ''0123456789abcdef''"
proof (intro conjI)
  show "cacheKey text = take 10 (md5_hex text)"
    by (simp add: cacheKey_def)
  show "length (cacheKey text) = 10"
    by (simp add: cacheKey_def length_md5_hex)
  have "set (cacheKey text) \<subseteq> set (md5_hex text)"
    unfolding cacheKey_def by (rule set_take_subset)
  also have "\<dots> \<subseteq> set ''0123456789abcdef''"
    unfolding md5_hex_def by (rule set_hex)
  finally show "set (cacheKey text) \<subseteq> set ''0123456789abcdef''" .
qed

theorem cacheKey_fixed_length_witness:
  "cacheKey ''Done!'' = ''d3de52109c'' \<and> length (cacheKey ''Done!'') = 10"
proof -
  from cacheKey_fixed_length [of "''Done!''"] have "length (cacheKey ''Done!'') = 10"
    by blast
  with cacheKey_Done show ?thesis by simp
qed

section \<open>The voice response\<close>

lemma speakResponse_disabled:
  \<open>voiceEnabled cfg = JBool False \<Longrightarrow>
     speakResponse env cfg text w =
       console_log [E Muted, T ('' Voice disabled: "'' @ template text @ ''"'')] w\<close>
  by (simp add: speakResponse_def)

lemma speakResponse_no_key:
  \<open>voiceEnabled cfg \<noteq> JBool False \<Longrightarrow>
   \<not> truthy (elevenLabsApiKey cfg) \<or> elevenLabsApiKey cfg = JStr ''your-api-key-here'' \<Longrightarrow>
     speakResponse env cfg text w =
       console_log [E Info, T ''  Add ElevenLabs API key for voice responses: voice-cli --setup'']
         (console_log [E Speech, T ('' "'' @ template text @ ''"'')] w)\<close>
  by (auto simp add: speakResponse_def)

lemma speakResponse_hit:
  assumes "voiceEnabled cfg \<noteq> JBool False"
    and "truthy (elevenLabsApiKey cfg)" and "elevenLabsApiKey cfg \<noteq> JStr ''your-api-key-here''"
    and "existsSync w (cachePath env text)"
  shows \<open>trace (speakResponse env cfg (JStr text) w) =
           trace w @ [Log [E Speaking, T (''  "'' @ text @ ''"'')],
                      Log [E Headphone, T '' Playing cached response...''],
                      Exec (audioCommand env (cachePath env text))]
             @ (case exec_error env (audioCommand env (cachePath env text)) of
                  None \<Rightarrow> []
                | Some msg \<Rightarrow> [Log [E Muted, T '' Audio playback not available on this system'']])\<close>
    and "files (speakResponse env cfg (JStr text) w) = files w"
  using assms by (simp_all add: speakResponse_def Let_def trace_playAudio)

lemma speakResponse_miss:
  assumes "voiceEnabled cfg \<noteq> JBool False"
    and "truthy (elevenLabsApiKey cfg)" and "elevenLabsApiKey cfg \<noteq> JStr ''your-api-key-here''"
    and "\<not> existsSync w (cachePath env text)"
  shows \<open>speakResponse env cfg (JStr text) w =
           (let w1 = console_log [E Speaking, T (''  "'' @ text @ ''"'')] w;
                w2 = (if \<not> existsSync w (CACHE_DIR env) then mkdirSync (CACHE_DIR env) w1 else w1);
                w3 = console_log [E Microphone, T '' Generating voice response...''] w2;
                req = ttsRequest text (elevenLabsApiKey cfg)
                        (if truthy (voiceId cfg) then voiceId cfg else JStr DEFAULT_VOICE_ID);
                w4 = emit (Request req) w3
            in case api env req of
                 NetError msg \<Rightarrow> speak_fallback (JStr text) msg w4
               | Response status body \<Rightarrow>
                   if status = 200
                   then (if files w (CACHE_DIR env) \<noteq> None
                         then speak_fallback (JStr text)
                                (''ENOTDIR: not a directory, open '' @ [CHR 0x27]
                                 @ cachePath env text @ [CHR 0x27]) w4
                         else playAudio env (cachePath env text)
                                (w4\<lparr>files := (files w4)(cachePath env text \<mapsto> body)\<rparr>))
                   else speak_fallback (JStr text)
                          (''ElevenLabs API error: '' @ decimal status) w4)\<close>
  using assms
  by (auto simp add: speakResponse_def Let_def getElevenLabsAudio_def writeFileSync_def
      dirname_cachePath cachePath_neq_CACHE_DIR existsSync_def split: response.split)

lemma clock_speakResponse [simp]: "clock (speakResponse env cfg text w) = clock w"
  by (simp add: speakResponse_def Let_def getElevenLabsAudio_def writeFileSync_def
      speak_fallback_def split: jsval.split response.split)

lemma runEntry_fulfils:
  "snd (runEntry env cfg command w) =
     Inr (snd (execute command
       (speakResponse env cfg (JStr (response command))
          (console_log [E Clipboard, T ('' '' @ description command)] w))))"
  by (simp add: runEntry_def Let_def split: prod.split)

text \<open>
  Claim C6. When voice output is not disabled and the API key is absent, otherwise falsy,
  or the placeholder \<^verbatim>\<open>your-api-key-here\<close>, \<^verbatim>\<open>speakResponse\<close> prints the text
  (and the hint to run the setup) and does nothing else: no request, no command, no
  change of the file system.
\<close>

theorem speakResponse_without_credential:
  assumes "voiceEnabled cfg \<noteq> JBool False"
    and "\<not> truthy (elevenLabsApiKey cfg) \<or> elevenLabsApiKey cfg = JStr ''your-api-key-here''"
  shows \<open>speakResponse env cfg (JStr text) w =
           console_log [E Info, T ''  Add ElevenLabs API key for voice responses: voice-cli --setup'']
             (console_log [E Speech, T ('' "'' @ text @ ''"'')] w)
         \<and> events_since w (speakResponse env cfg (JStr text) w) =
             [Log [E Speech, T ('' "'' @ text @ ''"'')],
              Log [E Info, T ''  Add ElevenLabs API key for voice responses: voice-cli --setup'']]
         \<and> files (speakResponse env cfg (JStr text) w) = files w
         \<and> dirs (speakResponse env cfg (JStr text) w) = dirs w\<close>
  using assms by (auto simp add: speakResponse_def events_since_def)

theorem speakResponse_without_credential_witness:
  \<open>voiceEnabled (default_config\<lparr>voiceEnabled := JBool True\<rparr>) \<noteq> JBool False
   \<and> elevenLabsApiKey (default_config\<lparr>voiceEnabled := JBool True\<rparr>) = JStr ''your-api-key-here''
   \<and> trace (speakResponse example_env (default_config\<lparr>voiceEnabled := JBool True\<rparr>)
              (JStr ''Done!'') empty_world) =
       [Log [E Speech, T '' "Done!"''],
        Log [E Info, T ''  Add ElevenLabs API key for voice responses: voice-cli --setup'']]\<close>
proof -
  have h1: "voiceEnabled (default_config\<lparr>voiceEnabled := JBool True\<rparr>) \<noteq> JBool False"
    by simp
  have key: "elevenLabsApiKey (default_config\<lparr>voiceEnabled := JBool True\<rparr>) = JStr ''your-api-key-here''"
    by (simp add: default_config_def)
  then have h2: "\<not> truthy (elevenLabsApiKey (default_config\<lparr>voiceEnabled := JBool True\<rparr>))
      \<or> elevenLabsApiKey (default_config\<lparr>voiceEnabled := JBool True\<rparr>) = JStr ''your-api-key-here''"
    by simp
  from speakResponse_without_credential [OF h1 h2, of example_env "''Done!''" empty_world]
  have \<open>trace (speakResponse example_env (default_config\<lparr>voiceEnabled := JBool True\<rparr>)
              (JStr ''Done!'') empty_world) =
       [Log [E Speech, T '' "Done!"''],
        Log [E Info, T ''  Add ElevenLabs API key for voice responses: voice-cli --setup'']]\<close>
    by (simp add: events_since_empty_world trace_empty_world)
  with h1 key show ?thesis by blast
qed

lemma speakResponse_cached:
  assumes "existsSync w (cachePath env text)"
  shows \<open>(\<forall>r. Request r \<notin> set (events_since w (speakResponse env cfg (JStr text) w)))
         \<and> (\<forall>c. Exec c \<in> set (events_since w (speakResponse env cfg (JStr text) w))
                \<longrightarrow> c = audioCommand env (cachePath env text))
         \<and> files (speakResponse env cfg (JStr text) w) = files w
         \<and> (voiceEnabled cfg \<noteq> JBool False \<and> truthy (elevenLabsApiKey cfg)
              \<and> elevenLabsApiKey cfg \<noteq> JStr ''your-api-key-here'' \<longrightarrow>
             events_since w (speakResponse env cfg (JStr text) w) =
               [Log [E Speaking, T (''  "'' @ text @ ''"'')],
                Log [E Headphone, T '' Playing cached response...''],
                Exec (audioCommand env (cachePath env text))]
               @ (case exec_error env (audioCommand env (cachePath env text)) of
                    None \<Rightarrow> []
                  | Some msg \<Rightarrow>
                      [Log [E Muted, T '' Audio playback not available on this system'']]))\<close>
proof (cases "voiceEnabled cfg = JBool False")
  case True
  then show ?thesis
    by (simp add: speakResponse_disabled events_since_def)
next
  case enabled: False
  show ?thesis
  proof (cases "\<not> truthy (elevenLabsApiKey cfg) \<or> elevenLabsApiKey cfg = JStr ''your-api-key-here''")
    case True
    with enabled show ?thesis
      by (auto simp add: speakResponse_no_key events_since_def)
  next
    case False
    then have key: "truthy (elevenLabsApiKey cfg)" "elevenLabsApiKey cfg \<noteq> JStr ''your-api-key-here''"
      by auto
    from speakResponse_hit [OF enabled key assms]
    show ?thesis
      by (auto simp add: events_since_def split: option.split)
  qed
qed

text \<open>
  Claim C3. When the cache file of a text, \<^verbatim>\<open><home>/.voice-cli-cache/<key>.mp3\<close>,
  exists, \<^verbatim>\<open>speakResponse\<close> sends no request and leaves every file as it is. The
  only command it can run is the player command of the platform with the path of that
  file as its argument: \<^verbatim>\<open>afplay\<close> on macOS, the \<^verbatim>\<open>SoundPlayer\<close> of PowerShell
  on Windows, else the first of \<^verbatim>\<open>mpg123\<close>, \<^verbatim>\<open>aplay\<close> and \<^verbatim>\<open>paplay\<close>. It
  does run that command whenever it gets as far as speaking, that is when voice output
  is not disabled and the API key is valid.
\<close>

theorem speakResponse_plays_cached_file:
  assumes "existsSync w (cachePath env text)"
  shows \<open>cachePath env text =
           homedir env @ (if platform env = ''win32'' then [CHR 0x5C] else ''/'')
             @ ''.voice-cli-cache'' @ (if platform env = ''win32'' then [CHR 0x5C] else ''/'')
             @ take 10 (md5_hex text) @ ''.mp3''
         \<and> (\<forall>r. Request r \<notin> set (events_since w (speakResponse env cfg (JStr text) w)))
         \<and> files (speakResponse env cfg (JStr text) w) = files w
         \<and> (let file = cachePath env text;
                 player =
                   (if platform env = ''darwin'' then ''afplay "'' @ file @ ''"''
                    else if platform env = ''win32''
                    then ''powershell -c "(New-Object Media.SoundPlayer '' @ [CHR 0x27] @ file
                           @ [CHR 0x27] @ '').PlaySync()"''
                    else ''which mpg123 > /dev/null 2>&1 && mpg123 -q "'' @ file
                           @ ''" || which aplay > /dev/null 2>&1 && aplay "'' @ file
                           @ ''" || which paplay > /dev/null 2>&1 && paplay "'' @ file @ ''"'')
             in (\<forall>c. Exec c \<in> set (events_since w (speakResponse env cfg (JStr text) w))
                    \<longrightarrow> c = player)
                \<and> (voiceEnabled cfg \<noteq> JBool False \<and> truthy (elevenLabsApiKey cfg)
                     \<and> elevenLabsApiKey cfg \<noteq> JStr ''your-api-key-here'' \<longrightarrow>
                    events_since w (speakResponse env cfg (JStr text) w) =
                      [Log [E Speaking, T (''  "'' @ text @ ''"'')],
                       Log [E Headphone, T '' Playing cached response...''],
                       Exec player]
                      @ (case exec_error env player of
                           None \<Rightarrow> []
                         | Some msg \<Rightarrow>
                             [Log [E Muted,
                                   T '' Audio playback not available on this system'']])))\<close>
proof -
  note core = speakResponse_cached [OF assms, of cfg]
  have 1: "cachePath env text =
           homedir env @ (if platform env = ''win32'' then [CHR 0x5C] else ''/'')
             @ ''.voice-cli-cache'' @ (if platform env = ''win32'' then [CHR 0x5C] else ''/'')
             @ take 10 (md5_hex text) @ ''.mp3''"
    by (simp add: cachePath_def CACHE_DIR_def path_join_def isWindows_def cacheKey_def)
  from core have 2: "\<forall>r. Request r \<notin> set (events_since w (speakResponse env cfg (JStr text) w))"
    and 3: "files (speakResponse env cfg (JStr text) w) = files w"
    by blast+
  from core have 4: "\<forall>c. Exec c \<in> set (events_since w (speakResponse env cfg (JStr text) w))
                \<longrightarrow> c = audioCommand env (cachePath env text)"
    by blast
  from core have 5: \<open>voiceEnabled cfg \<noteq> JBool False \<and> truthy (elevenLabsApiKey cfg)
              \<and> elevenLabsApiKey cfg \<noteq> JStr ''your-api-key-here'' \<longrightarrow>
             events_since w (speakResponse env cfg (JStr text) w) =
               [Log [E Speaking, T (''  "'' @ text @ ''"'')],
                Log [E Headphone, T '' Playing cached response...''],
                Exec (audioCommand env (cachePath env text))]
               @ (case exec_error env (audioCommand env (cachePath env text)) of
                    None \<Rightarrow> []
                  | Some msg \<Rightarrow>
                      [Log [E Muted, T '' Audio playback not available on this system'']])\<close>
    by blast
  have player: \<open>(if platform env = ''darwin'' then ''afplay "'' @ cachePath env text @ ''"''
        else if platform env = ''win32''
        then ''powershell -c "(New-Object Media.SoundPlayer '' @ [CHR 0x27] @ cachePath env text
               @ [CHR 0x27] @ '').PlaySync()"''
        else ''which mpg123 > /dev/null 2>&1 && mpg123 -q "'' @ cachePath env text
               @ ''" || which aplay > /dev/null 2>&1 && aplay "'' @ cachePath env text
               @ ''" || which paplay > /dev/null 2>&1 && paplay "'' @ cachePath env text @ ''"'')
      = audioCommand env (cachePath env text)\<close>
    by (simp add: audioCommand_def isMac_def isWindows_def)
  show ?thesis
    unfolding Let_def player
    using 1 2 3 4 5 by blast
qed

theorem speakResponse_plays_cached_file_witness:
  \<open>existsSync (empty_world\<lparr>files := [cachePath example_env ''Done!'' \<mapsto> ''XYZ'']\<rparr>)
      (cachePath example_env ''Done!'')
   \<and> cachePath example_env ''Done!'' = ''/home/user/.voice-cli-cache/d3de52109c.mp3''
   \<and> trace (speakResponse example_env voice_config (JStr ''Done!'')
               (empty_world\<lparr>files := [cachePath example_env ''Done!'' \<mapsto> ''XYZ'']\<rparr>)) =
       [Log [E Speaking, T ''  "Done!"''],
        Log [E Headphone, T '' Playing cached response...''],
        Exec (''which mpg123 > /dev/null 2>&1 && ''
              @ ''mpg123 -q "/home/user/.voice-cli-cache/d3de52109c.mp3" || ''
              @ ''which aplay > /dev/null 2>&1 && ''
              @ ''aplay "/home/user/.voice-cli-cache/d3de52109c.mp3" || ''
              @ ''which paplay > /dev/null 2>&1 && ''
              @ ''paplay "/home/user/.voice-cli-cache/d3de52109c.mp3"'')]
   \<and> files (speakResponse example_env voice_config (JStr ''Done!'')
               (empty_world\<lparr>files := [cachePath example_env ''Done!'' \<mapsto> ''XYZ'']\<rparr>))
         (cachePath example_env ''Done!'') = Some ''XYZ''\<close>
proof -
  let ?w = "empty_world\<lparr>files := [cachePath example_env ''Done!'' \<mapsto> ''XYZ'']\<rparr>"
  let ?w' = "speakResponse example_env voice_config (JStr ''Done!'') ?w"
  let ?player = \<open>''which mpg123 > /dev/null 2>&1 && mpg123 -q "'' @ cachePath example_env ''Done!''
             @ ''" || which aplay > /dev/null 2>&1 && aplay "'' @ cachePath example_env ''Done!''
             @ ''" || which paplay > /dev/null 2>&1 && paplay "'' @ cachePath example_env ''Done!''
             @ ''"''\<close>
  have ex: "existsSync ?w (cachePath example_env ''Done!'')"
    by (simp add: existsSync_def)
  have tr: "events_since ?w ?w' = trace ?w'"
    by (simp add: events_since_def empty_world_def)
  have gate: "voiceEnabled voice_config \<noteq> JBool False \<and> truthy (elevenLabsApiKey voice_config)
      \<and> elevenLabsApiKey voice_config \<noteq> JStr ''your-api-key-here''"
    by (simp add: voice_config_simps)
  note fact = speakResponse_plays_cached_file [OF ex, of voice_config, unfolded Let_def]
  from fact have f: "files ?w' = files ?w"
    by blast
  have pl: \<open>(if platform example_env = ''darwin''
              then ''afplay "'' @ cachePath example_env ''Done!'' @ ''"''
              else if platform example_env = ''win32''
              then ''powershell -c "(New-Object Media.SoundPlayer '' @ [CHR 0x27]
                     @ cachePath example_env ''Done!'' @ [CHR 0x27] @ '').PlaySync()"''
              else ''which mpg123 > /dev/null 2>&1 && mpg123 -q "''
                     @ cachePath example_env ''Done!''
                     @ ''" || which aplay > /dev/null 2>&1 && aplay "''
                     @ cachePath example_env ''Done!''
                     @ ''" || which paplay > /dev/null 2>&1 && paplay "''
                     @ cachePath example_env ''Done!'' @ ''"'') = ?player\<close>
    by (simp add: example_env_simps)
  from fact gate
  have \<open>events_since ?w ?w' =
          [Log [E Speaking, T (''  "'' @ ''Done!'' @ ''"'')],
           Log [E Headphone, T '' Playing cached response...''],
           Exec ?player]
          @ (case exec_error example_env ?player of
               None \<Rightarrow> []
             | Some msg \<Rightarrow> [Log [E Muted, T '' Audio playback not available on this system'']])\<close>
    unfolding pl by blast
  then have t: \<open>trace ?w' =
          [Log [E Speaking, T ''  "Done!"''],
           Log [E Headphone, T '' Playing cached response...''],
           Exec ?player]\<close>
    by (simp add: tr example_env_simps)
  have "files ?w' (cachePath example_env ''Done!'') = Some ''XYZ''"
    by (simp add: f)
  with ex t show ?thesis
    by (simp add: cachePath_Done)
qed




text \<open>
  Claim C5. For a text without cache file, with voice output not disabled and a valid
  API key, an answer whose status is not 200 makes \<^verbatim>\<open>speakResponse\<close> print the error
  and then the text; no file is written, the cache file of the text still does not exist.
  \<^verbatim>\<open>speakResponse\<close> catches every error, so it returns normally (in the model: it
  is a total function to the next state), and the command around it is fulfilled with
  the result of its action.
\<close>

theorem speakResponse_api_error:
  assumes "voiceEnabled cfg \<noteq> JBool False"
    and "truthy (elevenLabsApiKey cfg)" and "elevenLabsApiKey cfg \<noteq> JStr ''your-api-key-here''"
    and "\<not> existsSync w (cachePath env text)"
    and "api env (ttsRequest text (elevenLabsApiKey cfg)
           (if truthy (voiceId cfg) then voiceId cfg else JStr DEFAULT_VOICE_ID)) = Response status body"
    and "status \<noteq> 200"
  shows \<open>files (speakResponse env cfg (JStr text) w) = files w
         \<and> \<not> existsSync (speakResponse env cfg (JStr text) w) (cachePath env text)
         \<and> events_since w (speakResponse env cfg (JStr text) w) =
             [Log [E Speaking, T (''  "'' @ text @ ''"'')],
              Log [E Microphone, T '' Generating voice response...''],
              Request (ttsRequest text (elevenLabsApiKey cfg)
                 (if truthy (voiceId cfg) then voiceId cfg else JStr DEFAULT_VOICE_ID)),
              Log [E Cross, T ('' Voice response error: ElevenLabs API error: '' @ decimal status)],
              Log [E Speech, T ('' "'' @ text @ ''"'')]]
         \<and> snd (runEntry env cfg command w0) =
             Inr (snd (execute command
               (speakResponse env cfg (JStr (response command))
                  (console_log [E Clipboard, T ('' '' @ description command)] w0))))\<close>
  using assms(4-6)
  by (simp add: speakResponse_miss [OF assms(1-4)] Let_def events_since_def speak_fallback_def
      cachePath_neq_CACHE_DIR runEntry_fulfils)

theorem speakResponse_api_error_witness:
  \<open>\<not> existsSync empty_world
        (cachePath (example_env\<lparr>api := \<lambda>r. Response 401 ''Unauthorized''\<rparr>) ''Done!'')
   \<and> (401::nat) \<noteq> 200
   \<and> files (speakResponse (example_env\<lparr>api := \<lambda>r. Response 401 ''Unauthorized''\<rparr>)
               voice_config (JStr ''Done!'') empty_world) = files empty_world
   \<and> trace (speakResponse (example_env\<lparr>api := \<lambda>r. Response 401 ''Unauthorized''\<rparr>)
               voice_config (JStr ''Done!'') empty_world) =
       [Log [E Speaking, T ''  "Done!"''],
        Log [E Microphone, T '' Generating voice response...''],
        Request (ttsRequest ''Done!'' (JStr ''sk_test'') (JStr DEFAULT_VOICE_ID)),
        Log [E Cross, T '' Voice response error: ElevenLabs API error: 401''],
        Log [E Speech, T '' "Done!"'']]\<close>
proof -
  let ?env = "example_env\<lparr>api := \<lambda>r. Response 401 ''Unauthorized''\<rparr>"
  let ?w' = "speakResponse ?env voice_config (JStr ''Done!'') empty_world"
  have h1: "voiceEnabled voice_config \<noteq> JBool False"
    and h2: "truthy (elevenLabsApiKey voice_config)"
    and h3: "elevenLabsApiKey voice_config \<noteq> JStr ''your-api-key-here''"
    by (simp_all add: voice_config_simps)
  have h4: "\<not> existsSync empty_world (cachePath ?env ''Done!'')"
    by (rule existsSync_empty_world)
  have h5: "api ?env (ttsRequest ''Done!'' (elevenLabsApiKey voice_config)
              (if truthy (voiceId voice_config) then voiceId voice_config
               else JStr DEFAULT_VOICE_ID)) = Response 401 ''Unauthorized''"
    by simp
  have h6: "(401::nat) \<noteq> 200" by simp
  note fact = speakResponse_api_error [OF h1 h2 h3 h4 h5 h6]
  from fact have f: "files ?w' = files empty_world"
    by blast
  from fact have \<open>events_since empty_world ?w' =
             [Log [E Speaking, T (''  "'' @ ''Done!'' @ ''"'')],
              Log [E Microphone, T '' Generating voice response...''],
              Request (ttsRequest ''Done!'' (elevenLabsApiKey voice_config)
                 (if truthy (voiceId voice_config) then voiceId voice_config
                  else JStr DEFAULT_VOICE_ID)),
              Log [E Cross, T ('' Voice response error: ElevenLabs API error: '' @ decimal 401)],
              Log [E Speech, T ('' "'' @ ''Done!'' @ ''"'')]]\<close>
    by blast
  then have t: \<open>trace ?w' =
       [Log [E Speaking, T ''  "Done!"''],
        Log [E Microphone, T '' Generating voice response...''],
        Request (ttsRequest ''Done!'' (JStr ''sk_test'') (JStr DEFAULT_VOICE_ID)),
        Log [E Cross, T '' Voice response error: ElevenLabs API error: 401''],
        Log [E Speech, T '' "Done!"'']]\<close>
    by (simp add: events_since_empty_world voice_config_simps DEFAULT_VOICE_ID_def
        decimal_examples)
  from h4 h6 f t show ?thesis
    by (simp only: simp_thms)
qed

section \<open>Opening a folder\<close>

text \<open>
  Claim C8. \<^verbatim>\<open>openFolder\<close> checks first that the path exists. If it does not, it
  prints \<^verbatim>\<open>Folder not found: <path>\<close>, returns \<open>False\<close> and runs no command. If it
  does, it runs the command of the platform; when that command exits with status 0 it
  prints \<^verbatim>\<open>Opened folder: <path>\<close> and returns \<open>True\<close>, otherwise it prints the error
  and returns \<open>False\<close>.
\<close>

theorem openFolder_checks_existence:
  \<open>(\<not> existsSync w folderPath \<longrightarrow>
      openFolder env folderPath w =
        (console_log [E Cross, T ('' Folder not found: '' @ folderPath)] w, False)
      \<and> events_since w (fst (openFolder env folderPath w)) =
          [Log [E Cross, T ('' Folder not found: '' @ folderPath)]])
   \<and> (existsSync w folderPath \<longrightarrow>
        (let command = (if isWindows env then ''explorer "'' @ folderPath @ ''"''
                        else if isMac env then ''open "'' @ folderPath @ ''"''
                        else ''xdg-open "'' @ folderPath @ ''"'')
         in (case exec_error env command of
               None \<Rightarrow>
                 snd (openFolder env folderPath w) = True
                 \<and> events_since w (fst (openFolder env folderPath w)) =
                     [Exec command, Log [E Check, T ('' Opened folder: '' @ folderPath)]]
             | Some msg \<Rightarrow>
                 snd (openFolder env folderPath w) = False
                 \<and> events_since w (fst (openFolder env folderPath w)) =
                     [Exec command, Log [E Cross, T ('' Error: '' @ msg)]])))\<close>
  by (simp add: openFolder_def executeCommand_def events_since_def Let_def split: option.split)

theorem openFolder_checks_existence_witness:
  \<open>existsSync (empty_world\<lparr>dirs := {''/home/user/Downloads''}\<rparr>) (getDownloadsPath example_env)
   \<and> openFolder example_env (getDownloadsPath example_env)
        (empty_world\<lparr>dirs := {''/home/user/Downloads''}\<rparr>) =
       (empty_world\<lparr>dirs := {''/home/user/Downloads''},
                     trace := [Exec ''xdg-open "/home/user/Downloads"'',
                               Log [E Check, T '' Opened folder: /home/user/Downloads'']]\<rparr>, True)
   \<and> \<not> existsSync (empty_world\<lparr>dirs := {''/home/user/Downloads''}\<rparr>) (getDocumentsPath example_env)
   \<and> openFolder example_env (getDocumentsPath example_env)
        (empty_world\<lparr>dirs := {''/home/user/Downloads''}\<rparr>) =
       (empty_world\<lparr>dirs := {''/home/user/Downloads''},
                     trace := [Log [E Cross, T '' Folder not found: /home/user/Documents'']]\<rparr>,
        False)\<close>
proof -
  let ?w = "empty_world\<lparr>dirs := {''/home/user/Downloads''}\<rparr>"
  have dl: "getDownloadsPath example_env = ''/home/user/Downloads''"
    and doc: "getDocumentsPath example_env = ''/home/user/Documents''"
    by (simp_all add: getDownloadsPath_def getDocumentsPath_def path_join_def isWindows_def
        example_env_simps)
  have ex: "existsSync ?w ''/home/user/Downloads''" "\<not> existsSync ?w ''/home/user/Documents''"
    by (simp_all add: existsSync_def empty_world_def)
  have tr: "trace ?w = []" by (simp add: empty_world_def)
  from openFolder_checks_existence [of ?w "''/home/user/Downloads''" example_env] ex(1)
  have "snd (openFolder example_env ''/home/user/Downloads'' ?w) = True"
    by (simp add: isWindows_def isMac_def example_env_simps)
  moreover have \<open>fst (openFolder example_env ''/home/user/Downloads'' ?w) =
      ?w\<lparr>trace := [Exec ''xdg-open "/home/user/Downloads"'',
                    Log [E Check, T '' Opened folder: /home/user/Downloads'']]\<rparr>\<close>
    using ex(1)
    by (simp add: openFolder_def executeCommand_def isWindows_def isMac_def example_env_simps
        console_log_def emit_def tr)
  ultimately have a: \<open>openFolder example_env ''/home/user/Downloads'' ?w =
      (?w\<lparr>trace := [Exec ''xdg-open "/home/user/Downloads"'',
                    Log [E Check, T '' Opened folder: /home/user/Downloads'']]\<rparr>, True)\<close>
    by (simp add: prod_eq_iff)
  from openFolder_checks_existence [of ?w "''/home/user/Documents''" example_env] ex(2)
  have b: "openFolder example_env ''/home/user/Documents'' ?w =
      (?w\<lparr>trace := [Log [E Cross, T '' Folder not found: /home/user/Documents'']]\<rparr>, False)"
    by (simp add: console_log_def emit_def tr)
  from a b ex show ?thesis by (simp add: dl doc)
qed

section \<open>Dispatch\<close>

lemma distinct_VOICE_COMMANDS: "distinct (map fst (VOICE_COMMANDS env))"
  by (simp add: VOICE_COMMANDS_def)

lemma distinct_VOICE_COMMANDS_basic: "distinct (map fst (VOICE_COMMANDS_basic env))"
  by (simp add: VOICE_COMMANDS_basic_def)

lemma keys_VOICE_COMMANDS:
  "map fst (VOICE_COMMANDS env) =
     [''open browser'', ''open google'', ''open terminal'', ''open command prompt'',
      ''open downloads'', ''open documents'', ''open desktop'', ''open calculator'',
      ''open notepad'', ''what time is it'', ''system info'']"
  by (simp add: VOICE_COMMANDS_def)

lemma keys_VOICE_COMMANDS_basic:
  "map fst (VOICE_COMMANDS_basic env) = map fst (VOICE_COMMANDS env)"
  by (simp add: VOICE_COMMANDS_def VOICE_COMMANDS_basic_def)

lemma normalize_registered:
  assumes "p \<in> set (map fst (VOICE_COMMANDS env))"
  shows "toLowerCase p = p" and "p \<noteq> []" and "\<not> isWhiteSpace (hd p)" and "\<not> isWhiteSpace (last p)"
  using assms unfolding keys_VOICE_COMMANDS
  by (auto simp add: toLowerCase_def toLowerCase_char_def isWhiteSpace_def)

lemma toLowerCase_whitespace: "isWhiteSpace c \<Longrightarrow> toLowerCase_char c = c"
  by (auto simp add: isWhiteSpace_def toLowerCase_char_def)

lemma toLowerCase_append: "toLowerCase (a @ b) = toLowerCase a @ toLowerCase b"
  by (simp add: toLowerCase_def)

lemma toLowerCase_all_whitespace:
  "\<forall>c\<in>set a. isWhiteSpace c \<Longrightarrow> toLowerCase a = a"
  by (induction a) (simp_all add: toLowerCase_def toLowerCase_whitespace)

lemma trim_padded:
  assumes "\<forall>c\<in>set pre. isWhiteSpace c" and "\<forall>c\<in>set post. isWhiteSpace c"
    and "p \<noteq> []" and "\<not> isWhiteSpace (hd p)" and "\<not> isWhiteSpace (last p)"
  shows "trim (pre @ p @ post) = p"
proof -
  have front: "dropWhile isWhiteSpace (pre @ p @ post) = p @ post"
    using assms(1,3,4) by (cases p) (simp_all add: dropWhile_append3)
  have "dropWhile isWhiteSpace (rev (p @ post)) = rev p"
  proof -
    have "rev (p @ post) = rev post @ rev p" by simp
    moreover have "\<forall>c\<in>set (rev post). isWhiteSpace c" using assms(2) by simp
    moreover have "rev p \<noteq> []" "\<not> isWhiteSpace (hd (rev p))"
      using assms(3,5) by (simp_all add: hd_rev)
    ultimately show ?thesis
      by (cases "rev p") (simp_all add: dropWhile_append3)
  qed
  with front show ?thesis by (simp add: trim_def)
qed

lemma normalize_padded:
  assumes "p \<in> set (map fst (VOICE_COMMANDS env))"
    and "\<forall>c\<in>set pre. isWhiteSpace c" and "\<forall>c\<in>set post. isWhiteSpace c"
    and "toLowerCase q = toLowerCase p"
  shows "trim (toLowerCase (pre @ q @ post)) = p"
proof -
  have "toLowerCase (pre @ q @ post) = pre @ p @ post"
    using assms(2-4) normalize_registered(1) [OF assms(1)]
    by (simp add: toLowerCase_append toLowerCase_all_whitespace)
  then show ?thesis
    using trim_padded [OF assms(2,3) normalize_registered(2-4) [OF assms(1)]] by simp
qed

lemma normalize_phrase:
  assumes "p \<in> set (map fst (VOICE_COMMANDS env))"
  shows "trim (toLowerCase p) = p"
  using normalize_padded [OF assms, of "[]" "[]" p] by simp

lemma get_property_registered:
  assumes "(p, e) \<in> set (VOICE_COMMANDS env)"
  shows "get_property (VOICE_COMMANDS env) p = Own e"
  using map_of_is_SomeI [OF distinct_VOICE_COMMANDS assms] by (simp add: get_property_def)

lemma get_property_registered_basic:
  assumes "(p, e) \<in> set (VOICE_COMMANDS_basic env)"
  shows "get_property (VOICE_COMMANDS_basic env) p = Own e"
  using map_of_is_SomeI [OF distinct_VOICE_COMMANDS_basic assms] by (simp add: get_property_def)

text \<open>
  Claim C1. Let \<open>p\<close> be a registered phrase with entry \<open>e\<close>, and let the input be
  \<open>pre @ q @ post\<close>, where \<open>pre\<close> and \<open>post\<close> are white space and \<open>q\<close> equals
  \<open>p\<close> up to letter case. Then lower-casing and trimming the input gives \<open>p\<close>, the
  lookup gives \<open>e\<close> for the input as for the phrase itself, and
  \<^verbatim>\<open>executeVoiceCommand\<close> runs \<open>e\<close> in both cases (the two runs differ only in the
  line that echoes the input). The same holds for version 1.0.0.
\<close>

theorem dispatch_normalizes_input:
  assumes "(p, e) \<in> set (VOICE_COMMANDS env)"
    and "\<forall>c\<in>set pre. isWhiteSpace c" and "\<forall>c\<in>set post. isWhiteSpace c"
    and "toLowerCase q = toLowerCase p"
  shows \<open>trim (toLowerCase (pre @ q @ post)) = p
         \<and> trim (toLowerCase p) = p
         \<and> get_property (VOICE_COMMANDS env) (trim (toLowerCase (pre @ q @ post))) = Own e
         \<and> get_property (VOICE_COMMANDS env) (trim (toLowerCase p)) = Own e
         \<and> executeVoiceCommand env cfg (pre @ q @ post) w =
             runEntry env cfg e
               (console_log [E Speaking, T (''  Voice command: "'' @ pre @ q @ post @ ''"'')] w)
         \<and> executeVoiceCommand env cfg p w =
             runEntry env cfg e
               (console_log [E Speaking, T (''  Voice command: "'' @ p @ ''"'')] w)
         \<and> (\<forall>e'. (p, e') \<in> set (VOICE_COMMANDS_basic env) \<longrightarrow>
               executeVoiceCommand_basic env (pre @ q @ post) w =
                 runEntry_basic e'
                   (console_log [E Speaking, T (''  Voice command: "'' @ pre @ q @ post @ ''"'')] w)
               \<and> executeVoiceCommand_basic env p w =
                   runEntry_basic e'
                     (console_log [E Speaking, T (''  Voice command: "'' @ p @ ''"'')] w))\<close>
proof -
  have key: "p \<in> set (map fst (VOICE_COMMANDS env))"
    using assms(1) by force
  have n1: "trim (toLowerCase (pre @ q @ post)) = p"
    by (rule normalize_padded [OF key assms(2-4)])
  have n2: "trim (toLowerCase p) = p"
    by (rule normalize_phrase [OF key])
  have own: "get_property (VOICE_COMMANDS env) p = Own e"
    by (rule get_property_registered [OF assms(1)])
  have basic: "get_property (VOICE_COMMANDS_basic env) p = Own e'"
    if "(p, e') \<in> set (VOICE_COMMANDS_basic env)" for e'
    by (rule get_property_registered_basic [OF that])
  show ?thesis
    using n1 n2 own basic
    by (simp add: executeVoiceCommand_def executeVoiceCommand_basic_def Let_def)
qed

lemma toLowerCase_example: "toLowerCase ''Open BROWSER'' = toLowerCase ''open browser''"
  by code_simp

theorem dispatch_normalizes_input_witness:
  \<open>(''open browser'',
      \<lparr>description = ''Opens your default web browser'', execute = openBrowser example_env [],
       response = ''Opening your browser now!''\<rparr>) \<in> set (VOICE_COMMANDS example_env)
   \<and> list_all isWhiteSpace ''  '' \<and> list_all isWhiteSpace ''  \<newline>''
   \<and> toLowerCase ''Open BROWSER'' = toLowerCase ''open browser''
   \<and> trim (toLowerCase (''  '' @ ''Open BROWSER'' @ ''  \<newline>'')) = ''open browser''
   \<and> executeVoiceCommand example_env default_config
         (''  '' @ ''Open BROWSER'' @ ''  \<newline>'') empty_world =
       runEntry example_env default_config
         \<lparr>description = ''Opens your default web browser'', execute = openBrowser example_env [],
          response = ''Opening your browser now!''\<rparr>
         (console_log
            [E Speaking,
             T (''  Voice command: "'' @ ''  '' @ ''Open BROWSER'' @ ''  \<newline>'' @ ''"'')]
            empty_world)
   \<and> executeVoiceCommand example_env default_config ''open browser'' empty_world =
       runEntry example_env default_config
         \<lparr>description = ''Opens your default web browser'', execute = openBrowser example_env [],
          response = ''Opening your browser now!''\<rparr>
         (console_log [E Speaking, T (''  Voice command: "'' @ ''open browser'' @ ''"'')]
            empty_world)\<close>
proof -
  let ?e = "\<lparr>description = ''Opens your default web browser'',
             execute = openBrowser example_env [],
             response = ''Opening your browser now!''\<rparr>"
  have h1: "(''open browser'', ?e) \<in> set (VOICE_COMMANDS example_env)"
    by (simp add: VOICE_COMMANDS_def)
  have ws: "list_all isWhiteSpace ''  ''" "list_all isWhiteSpace ''  \<newline>''"
    by (simp_all add: isWhiteSpace_def)
  then have h2: "\<forall>c\<in>set ''  ''. isWhiteSpace c" and h3: "\<forall>c\<in>set ''  \<newline>''. isWhiteSpace c"
    by (simp_all only: list_all_iff)
  note h4 = toLowerCase_example
  note fact = dispatch_normalizes_input [OF h1 h2 h3 h4, of default_config empty_world]
  from fact h1 ws h4 show ?thesis
    by blast
qed

lemma trace_showAvailableCommands_aux:
  "trace (foldl (\<lambda>w' (command, info). console_log (f command info) w') w xs) =
     trace w @ map (\<lambda>(command, info). Log (f command info)) xs"
  by (induction xs arbitrary: w) (simp_all add: case_prod_beta)

lemma trace_showAvailableCommands:
  \<open>trace (showAvailableCommands env w) =
     trace w
     @ [Log [T backslash_n, E StudioMic, T (''  Available Voice Commands:'' @ backslash_n)]]
     @ map (\<lambda>(command, info). Log [T (''   "'' @ command @ ''" - '' @ description info)])
         (VOICE_COMMANDS env)
     @ [Log [T backslash_n, E Bulb, T '' Tip: Commands are case-insensitive'']]\<close>
  by (simp add: showAvailableCommands_def trace_showAvailableCommands_aux)

text \<open>
  An input whose normalized form is no property of the registry object at all is reported
  as unknown, the registry is listed and the result is failure.
\<close>

lemma executeVoiceCommand_unknown:
  assumes "get_property (VOICE_COMMANDS env) (trim (toLowerCase commandText)) = Absent"
  shows \<open>executeVoiceCommand env cfg commandText w =
     (showAvailableCommands env
        (console_log [E Bulb, T '' Try one of these commands:'']
           (speakResponse env cfg
              (JStr ''I didn't understand that command. Try asking for help.'')
              (console_log [E Question, T ('' Unknown command: "'' @ commandText @ ''"'')]
                 (console_log [E Speaking, T (''  Voice command: "'' @ commandText @ ''"'')] w)))),
      Inr False)\<close>
  using assms by (simp add: executeVoiceCommand_def Let_def)

lemma normalize_constructor: "trim (toLowerCase ''constructor'') = ''constructor''"
  by (simp add: trim_def toLowerCase_def toLowerCase_char_def isWhiteSpace_def)

lemma get_property_constructor:
  "get_property (VOICE_COMMANDS env) ''constructor'' = Inherited ''constructor''"
  "get_property (VOICE_COMMANDS_basic env) ''constructor'' = Inherited ''constructor''"
  by (simp_all add: get_property_def VOICE_COMMANDS_def VOICE_COMMANDS_basic_def
      object_prototype_keys_def)

text \<open>
  Claim C2. The claim is that every input whose normalized form is no registered phrase
  is reported as unknown, with the listing of the registry and the result failure. The
  input \<^verbatim>\<open>constructor\<close> is no registered phrase, but the registry is a plain object
  and inherits a property of that name from \<^verbatim>\<open>Object.prototype\<close>. The lookup gives
  that value, which is truthy, so the branch for a known command is taken: the program
  prints \<^verbatim>\<open>undefined\<close> as the description, speaks \<^verbatim>\<open>undefined\<close>, and the call of
  \<^verbatim>\<open>command.execute\<close> throws. Nothing is reported as unknown and nothing is listed.
\<close>

theorem dispatch_constructor_throws:
  \<open>''constructor'' \<notin> set (map fst (VOICE_COMMANDS env))
   \<and> executeVoiceCommand env cfg ''constructor'' w =
       (speakResponse env cfg JUndefined
          (console_log [E Clipboard, T '' undefined'']
             (console_log [E Speaking, T ''  Voice command: "constructor"''] w)),
        Inl ''command.execute is not a function'')
   \<and> executeVoiceCommand_basic env ''constructor'' w =
       (console_log [E Clipboard, T '' undefined'']
          (console_log [E Speaking, T ''  Voice command: "constructor"''] w),
        Inl ''command.execute is not a function'')\<close>
  by (simp add: keys_VOICE_COMMANDS executeVoiceCommand_def executeVoiceCommand_basic_def
      normalize_constructor get_property_constructor Let_def)

theorem dispatch_constructor_throws_witness:
  \<open>trace (fst (run_cli example_env [''constructor''] [] empty_world)) =
     [Log [E Speaking, T ''  Voice command: "constructor"''],
      Log [E Clipboard, T '' undefined''],
      Log [E Muted, T '' Voice disabled: "undefined"''],
      Log [E Cross, T '' Error: command.execute is not a function'']]
   \<and> snd (run_cli example_env [''constructor''] [] empty_world) = Some 1\<close>
proof -
  have m: \<open>main example_env [''constructor''] [] empty_world =
          (speakResponse example_env default_config JUndefined
             (console_log [E Clipboard, T '' undefined'']
                (console_log [E Speaking, T ''  Voice command: "constructor"''] empty_world)),
           Inl ''command.execute is not a function'')\<close>
    using dispatch_constructor_throws [of example_env default_config empty_world]
    by (simp add: main_def loadConfig_empty_world)
  show ?thesis
    by (simp add: run_cli_def m speakResponse_disabled voiceEnabled_default trace_empty_world)
qed

lemma map_of_time:
  "map_of (VOICE_COMMANDS env) ''what time is it'' =
     Some \<lparr>description = ''Shows current time'', execute = showTime env,
           response = ''It's '' @ toLocaleTimeString env (load_time env)\<rparr>"
  by (simp add: VOICE_COMMANDS_def)

text \<open>
  Claim C10. The response of \<^verbatim>\<open>what time is it\<close> is part of the registry, which is
  built when the script is loaded: it is the time of loading, \<open>load_time env\<close>. Every
  dispatch of the phrase speaks that string, whatever the clock of the state says, while
  the action prints the time of the clock.
\<close>

theorem time_response_fixed_at_load:
  \<open>map_of (VOICE_COMMANDS env) ''what time is it'' =
      Some \<lparr>description = ''Shows current time'', execute = showTime env,
            response = ''It's '' @ toLocaleTimeString env (load_time env)\<rparr>
    \<and> executeVoiceCommand env cfg ''what time is it'' w =
        (let w1 = console_log [E Speaking, T ''  Voice command: "what time is it"''] w;
             w2 = console_log [E Clipboard, T '' Shows current time''] w1;
             w3 = speakResponse env cfg
                    (JStr (''It's '' @ toLocaleTimeString env (load_time env))) w2;
             w4 = console_log [E Clock, T ('' Current time: '' @ toLocaleString env (clock w))] w3
         in (speakResponse env cfg (JStr ''Done!'')
               (console_log [E Party, T '' Command completed successfully!''] w4),
             Inr True))\<close>
proof -
  have key: "''what time is it'' \<in> set (map fst (VOICE_COMMANDS env))"
    by (simp add: keys_VOICE_COMMANDS)
  have "get_property (VOICE_COMMANDS env) (trim (toLowerCase ''what time is it'')) =
          Own \<lparr>description = ''Shows current time'', execute = showTime env,
               response = ''It's '' @ toLocaleTimeString env (load_time env)\<rparr>"
    by (simp add: normalize_phrase [OF key] get_property_def map_of_time)
  then show ?thesis
    by (simp add: map_of_time executeVoiceCommand_def runEntry_def showTime_def Let_def)
qed

theorem time_response_fixed_at_load_witness:
  \<open>trace (fst (executeVoiceCommand example_env default_config ''what time is it'' empty_world)) =
     [Log [E Speaking, T ''  Voice command: "what time is it"''],
      Log [E Clipboard, T '' Shows current time''],
      Log [E Muted, T '' Voice disabled: "It's 1000"''],
      Log [E Clock, T '' Current time: 2000''],
      Log [E Party, T '' Command completed successfully!''],
      Log [E Muted, T '' Voice disabled: "Done!"'']]\<close>
proof -
  have clk: "clock empty_world = 2000" by (simp add: empty_world_def)
  from time_response_fixed_at_load [of example_env default_config empty_world]
  show ?thesis
    by (simp add: Let_def speakResponse_disabled voiceEnabled_default example_env_simps
        decimal_examples trace_empty_world clk)
qed

section \<open>The version flag\<close>

text \<open>
  Claim C9, as amended. With first argument \<^verbatim>\<open>--version\<close> or \<^verbatim>\<open>-v\<close> no command
  is dispatched, no setup runs, no file or directory changes and no command is run; the
  last line printed is \<^verbatim>\<open>Voice CLI v<VERSION>\<close>. Version 1.0.0 prints nothing else.
  Version 1.0.1 loads the configuration before it looks at the argument, so when the
  configuration file exists but cannot be read or parsed, the warning
  \<^verbatim>\<open>Could not load config: <message>\<close> comes before the version line; in every other
  case the version line is the only output.
\<close>

theorem version_flag_prints_version:
  assumes "firstArg = ''--version'' \<or> firstArg = ''-v''"
  shows \<open>main_basic env (firstArg # rest) inputs w =
            (console_log [T ''Voice CLI v1.0.0''] w, Inr Finished)
         \<and> snd (main env (firstArg # rest) inputs w) = Inr Finished
         \<and> files (fst (main env (firstArg # rest) inputs w)) = files w
         \<and> dirs (fst (main env (firstArg # rest) inputs w)) = dirs w
         \<and> events_since w (fst (main env (firstArg # rest) inputs w)) =
             (if existsSync w (CONFIG_FILE env)
              then (case readFileSync w (CONFIG_FILE env) of
                      Inl msg \<Rightarrow> [Log [E Warning, T (''  Could not load config: '' @ msg)]]
                    | Inr d \<Rightarrow>
                        (case json_parse env d of
                           Inl msg \<Rightarrow> [Log [E Warning, T (''  Could not load config: '' @ msg)]]
                         | Inr cfg \<Rightarrow> []))
              else [])
             @ [Log [T ''Voice CLI v1.0.1'']]\<close>
  using assms
  by (auto simp add: main_basic_def main_def loadConfig_def VERSION_def VERSION_basic_def
      events_since_def split: sum.split prod.split)

theorem version_flag_prints_version_witness:
  \<open>main_basic example_env [''-v''] [] empty_world =
      (console_log [T ''Voice CLI v1.0.0''] empty_world, Inr Finished)
   \<and> trace (fst (main example_env [''-v''] [] empty_world)) = [Log [T ''Voice CLI v1.0.1'']]\<close>
proof -
  have arg: "''-v'' = ''--version'' \<or> ''-v'' = ''-v''" by simp
  from version_flag_prints_version [OF arg, of example_env "[]" "[]" empty_world]
  show ?thesis
    by (simp add: existsSync_empty_world events_since_empty_world)
qed

text \<open>
  The claim as stated (no other output) fails for version 1.0.1 when the configuration
  file cannot be parsed.
\<close>

theorem version_flag_counterexample:
  \<open>trace (fst (main example_env [''--version''] []
                 (empty_world\<lparr>files := [CONFIG_FILE example_env \<mapsto> ''{'']\<rparr>))) =
     [Log [E Warning, T ''  Could not load config: Unexpected end of JSON input''],
      Log [T ''Voice CLI v1.0.1'']]\<close>
  by (simp add: main_def loadConfig_def existsSync_def readFileSync_def example_env_simps
      VERSION_def trace_empty_world)

end
